theory Spec2Isabelle
  imports Main "HOL-Library.Word" "HOL-Library.AList"
begin

section \<open>The host bridge: vars and the dictionary interface\<close>

text \<open>
  \<^verbatim>\<open>vim_pepper.c\<close> talks to the browser through the Pepper interfaces
  \<^verbatim>\<open>PPB_Var\<close>, \<^verbatim>\<open>PPB_VarDictionary\<close> and \<^verbatim>\<open>PPB_Messaging\<close>. They are not
  code of the repository; they are modelled here after their documented contract, as far
  as the file uses them. A var is a value: its type tag and, for the types the file reads,
  its content. A dictionary keeps its entries in the order they were set.
\<close>

datatype PP_VarType =
    PP_VARTYPE_UNDEFINED
  | PP_VARTYPE_NULL
  | PP_VARTYPE_BOOL
  | PP_VARTYPE_INT32
  | PP_VARTYPE_DOUBLE
  | PP_VARTYPE_STRING
  | PP_VARTYPE_OBJECT
  | PP_VARTYPE_ARRAY
  | PP_VARTYPE_DICTIONARY
  | PP_VARTYPE_ARRAY_BUFFER
  | PP_VARTYPE_RESOURCE

datatype PP_Var =
    Undefined_var
  | Null_var
  | Bool_var bool
  | Int32_var "32 word"
  | Double_var "64 word"
  | String_var string
  | Object_var
  | Array_var "PP_Var list"
  | Dictionary_var "(string \<times> PP_Var) list"
  | Array_buffer_var string
  | Resource_var

text \<open>The field \<^verbatim>\<open>type\<close> of \<^verbatim>\<open>struct PP_Var\<close>.\<close>

fun var_type :: "PP_Var \<Rightarrow> PP_VarType" where
  "var_type Undefined_var = PP_VARTYPE_UNDEFINED"
| "var_type Null_var = PP_VARTYPE_NULL"
| "var_type (Bool_var b) = PP_VARTYPE_BOOL"
| "var_type (Int32_var i) = PP_VARTYPE_INT32"
| "var_type (Double_var d) = PP_VARTYPE_DOUBLE"
| "var_type (String_var s) = PP_VARTYPE_STRING"
| "var_type Object_var = PP_VARTYPE_OBJECT"
| "var_type (Array_var vs) = PP_VARTYPE_ARRAY"
| "var_type (Dictionary_var kvs) = PP_VARTYPE_DICTIONARY"
| "var_type (Array_buffer_var bs) = PP_VARTYPE_ARRAY_BUFFER"
| "var_type Resource_var = PP_VARTYPE_RESOURCE"

text \<open>
  The field \<^verbatim>\<open>value.as_int\<close>. \<^verbatim>\<open>value\<close> is a union of 64 bits; the source reads
  \<^verbatim>\<open>as_int\<close> without looking at the type tag. For an int32 var that is its number. For any
  other var it is the low half of whatever the host left in the union (a var id, the bits of
  a double, a boolean): \<open>raw\<close> stands for these 64 bits, which the program cannot choose.
\<close>

fun as_int :: "(PP_Var \<Rightarrow> 64 word) \<Rightarrow> PP_Var \<Rightarrow> 32 word" where
  "as_int raw (Int32_var i) = i"
| "as_int raw v = ucast (raw v)"

definition PP_MakeInt32 :: "32 word \<Rightarrow> PP_Var" where
  "PP_MakeInt32 i = Int32_var i"

abbreviation NUL :: char where
  "NUL \<equiv> CHR 0x00"

text \<open>
  A \<^verbatim>\<open>char *\<close> is \<^verbatim>\<open>NULL\<close>, or a block of \<^verbatim>\<open>malloc\<close>, or the bytes of a var: the pointer
  \<^verbatim>\<open>VarToUtf8\<close> hands out, which leads into the storage of the var and is good for as long
  as the bridge keeps the var.
\<close>

type_synonym addr = nat

datatype cptr = Null_ptr | Block addr | Var_bytes PP_Var

text \<open>
  \<^verbatim>\<open>VarToUtf8(var, &len)\<close>: a pointer to the bytes of a string var (not NUL-terminated) and
  their number; \<^verbatim>\<open>NULL\<close> and length 0 for a var that is not a string. The length is a
  \<^verbatim>\<open>uint32_t\<close> in the source; it is a natural number here, since no string in Native
  Client's 32-bit memory reaches \<open>2 ^ 32\<close> bytes.
\<close>

fun VarToUtf8 :: "PP_Var \<Rightarrow> cptr \<times> nat" where
  "VarToUtf8 (String_var s) = (Var_bytes (String_var s), length s)"
| "VarToUtf8 v = (Null_ptr, 0)"

text \<open>
  Well-formed UTF-8, byte by byte (the Unicode standard's table of well-formed byte
  sequences): one byte below \<open>0x80\<close>; a lead byte \<open>0xC2..0xDF\<close>, \<open>0xE0..0xEF\<close> or
  \<open>0xF0..0xF4\<close> with one, two or three bytes after it, the first of them within the bounds
  the lead byte sets and the others in \<open>0x80..0xBF\<close>.
\<close>

definition byte :: "char \<Rightarrow> nat" where
  "byte c = of_char c"

definition second_lo :: "char \<Rightarrow> nat" where
  "second_lo a = (if byte a = 0xE0 then 0xA0 else if byte a = 0xF0 then 0x90 else 0x80)"

definition second_hi :: "char \<Rightarrow> nat" where
  "second_hi a = (if byte a = 0xED then 0x9F else if byte a = 0xF4 then 0x8F else 0xBF)"

definition second :: "char \<Rightarrow> char \<Rightarrow> bool" where
  "second a b = (second_lo a \<le> byte b \<and> byte b \<le> second_hi a)"

definition cont :: "char \<Rightarrow> bool" where
  "cont c = (0x80 \<le> byte c \<and> byte c \<le> 0xBF)"

fun utf8 :: "string \<Rightarrow> bool" where
  "utf8 [] = True"
| "utf8 (a # s) =
     (if byte a < 0x80 then utf8 s
      else if 0xC2 \<le> byte a \<and> byte a \<le> 0xDF then
        (case s of b # s' \<Rightarrow> second a b \<and> utf8 s' | _ \<Rightarrow> False)
      else if 0xE0 \<le> byte a \<and> byte a \<le> 0xEF then
        (case s of b # c # s' \<Rightarrow> second a b \<and> cont c \<and> utf8 s' | _ \<Rightarrow> False)
      else if 0xF0 \<le> byte a \<and> byte a \<le> 0xF4 then
        (case s of b # c # d # s' \<Rightarrow> second a b \<and> cont c \<and> cont d \<and> utf8 s' | _ \<Rightarrow> False)
      else False)"

text \<open>
  \<^verbatim>\<open>VarFromUtf8(data, len)\<close>: a string var holding a copy of the first \<open>len\<close> bytes, or
  a null var when they are not valid UTF-8.
\<close>

definition VarFromUtf8 :: "string \<Rightarrow> nat \<Rightarrow> PP_Var" where
  "VarFromUtf8 data len =
     (if utf8 (take len data) then String_var (take len data) else Null_var)"

definition dict_Create :: "PP_Var" where
  "dict_Create = Dictionary_var []"

fun dict_HasKey :: "PP_Var \<Rightarrow> PP_Var \<Rightarrow> bool" where
  "dict_HasKey (Dictionary_var kvs) (String_var k) = (map_of kvs k \<noteq> None)"
| "dict_HasKey d k = False"

fun dict_Get :: "PP_Var \<Rightarrow> PP_Var \<Rightarrow> PP_Var" where
  "dict_Get (Dictionary_var kvs) (String_var k) =
     (case map_of kvs k of None \<Rightarrow> Undefined_var | Some v \<Rightarrow> v)"
| "dict_Get d k = Undefined_var"

fun dict_Set :: "PP_Var \<Rightarrow> PP_Var \<Rightarrow> PP_Var \<Rightarrow> PP_Var" where
  "dict_Set (Dictionary_var kvs) (String_var k) v = Dictionary_var (AList.update k v kvs)"
| "dict_Set d k v = d"

subsection \<open>The constants set up by \<^verbatim>\<open>nacl_main\<close>\<close>

text \<open>Each is \<^verbatim>\<open>UTF8_TO_VAR\<close> of a literal of plain ASCII, so a string var.\<close>

definition type_append_line :: PP_Var where
  "type_append_line = String_var ''append_line''"

definition type_insert_text :: PP_Var where
  "type_insert_text = String_var ''insert_text''"

definition type_remove_line :: PP_Var where
  "type_remove_line = String_var ''remove_line''"

definition type_delete_text :: PP_Var where
  "type_delete_text = String_var ''delete_text''"

definition type_replace_line :: PP_Var where
  "type_replace_line = String_var ''replace_line''"

definition type_key :: PP_Var where
  "type_key = String_var ''collabedit_type''"

definition line_key :: PP_Var where
  "line_key = String_var ''line''"

definition text_key :: PP_Var where
  "text_key = String_var ''text''"

definition index_key :: PP_Var where
  "index_key = String_var ''index''"

definition length_key :: PP_Var where
  "length_key = String_var ''length''"

definition constants :: "PP_Var list" where
  "constants = [type_append_line, type_insert_text, type_remove_line, type_delete_text,
     type_replace_line, type_key, line_key, text_key, index_key, length_key]"

section \<open>The program's memory\<close>

text \<open>
  Modelled from the spec: the declaration of \<^verbatim>\<open>collabedit_T\<close> (\<^verbatim>\<open>collab_structs.h\<close>) is
  not among the sources. Its shape follows section 3 of the specification and the accesses
  of \<^verbatim>\<open>vim_pepper.c\<close>: a type tag, a reference to the buffer edited, and a union with one
  member per tag. The tag and the active member are one constructor here. Line, index and
  length are 32 bits wide, like the integers that cross the wire: whichever of vim's integer
  types the header gives them, under Native Client \<^verbatim>\<open>int\<close>, \<^verbatim>\<open>long\<close> and
  \<^verbatim>\<open>size_t\<close> all are. A text is a \<^verbatim>\<open>char_u *\<close> to a NUL-terminated buffer; the buffer edited
  is a \<^verbatim>\<open>buf_T *\<close> of vim, a reference this file only copies.
\<close>

datatype collabtype_T =
    COLLAB_APPEND_LINE
  | COLLAB_INSERT_TEXT
  | COLLAB_REMOVE_LINE
  | COLLAB_DELETE_TEXT
  | COLLAB_REPLACE_LINE

type_synonym buf_ref = nat

datatype collab_union =
    Append_line "32 word" cptr
  | Insert_text "32 word" "32 word" cptr
  | Remove_line "32 word"
  | Delete_text "32 word" "32 word" "32 word"
  | Replace_line "32 word" cptr

record collabedit_T =
  file_buf :: buf_ref
  body :: collab_union

fun collab_type :: "collab_union \<Rightarrow> collabtype_T" where
  "collab_type (Append_line l t) = COLLAB_APPEND_LINE"
| "collab_type (Insert_text l i t) = COLLAB_INSERT_TEXT"
| "collab_type (Remove_line l) = COLLAB_REMOVE_LINE"
| "collab_type (Delete_text l i n) = COLLAB_DELETE_TEXT"
| "collab_type (Replace_line l t) = COLLAB_REPLACE_LINE"

text \<open>
  The heap of \<^verbatim>\<open>malloc\<close>: a block is a byte buffer or a \<^verbatim>\<open>collabedit_T\<close>, the latter
  \<open>Uninit\<close> until its fields are written. Address \<open>p > 0\<close> is the \<open>p\<close>-th block ever
  allocated, \<open>0\<close> is \<^verbatim>\<open>NULL\<close>, and a freed block stays behind as \<open>None\<close>, so a new block
  never has the address of an old one and a use after \<^verbatim>\<open>free\<close> is seen. Allocation always
  succeeds: running out of memory is fatal by design and is not modelled. What a fresh
  block holds is not the program's choice: \<open>garbage\<close> gives its bytes, position by
  position.

  The rest of the world as the file sees it: vim's \<^verbatim>\<open>curbuf\<close>, the queue of edits for the
  main thread, the messages the bridge took for JavaScript, the events acquired from the
  bridge and not yet given back, the vars and events given back, whether the bridge
  currently delivers what is posted, and the union bits of the vars it hands over.
\<close>

datatype cell = Chars string | Edit collabedit_T | Uninit

record world =
  heap :: "cell option list"
  curbuf :: buf_ref
  collab_queue :: "addr list"
  outbox :: "PP_Var list"
  acquired :: "PP_Var list"
  released :: "PP_Var list"
  delivering :: bool
  raw_bits :: "PP_Var \<Rightarrow> 64 word"
  garbage :: "nat \<Rightarrow> char"

datatype fault = Null_pointer | Wild_pointer | Dangling_pointer | Overrun

definition and_then :: "fault + 'a \<Rightarrow> ('a \<Rightarrow> fault + 'b) \<Rightarrow> fault + 'b" where
  "and_then r f = (case r of Inl e \<Rightarrow> Inl e | Inr x \<Rightarrow> f x)"

definition cell_at :: "world \<Rightarrow> addr \<Rightarrow> cell option" where
  "cell_at w p = (if 0 < p \<and> p \<le> length (heap w) then heap w ! (p - 1) else None)"

definition alloc :: "cell \<Rightarrow> world \<Rightarrow> addr \<times> world" where
  "alloc c w = (Suc (length (heap w)), w\<lparr>heap := heap w @ [Some c]\<rparr>)"

text \<open>\<^verbatim>\<open>malloc(n)\<close> for a byte buffer: \<open>n\<close> bytes of whatever was there.\<close>

definition malloc :: "nat \<Rightarrow> world \<Rightarrow> addr \<times> world" where
  "malloc n w = alloc (Chars (map (garbage w) [0..<n])) w"

definition store :: "addr \<Rightarrow> cell \<Rightarrow> world \<Rightarrow> fault + world" where
  "store p c w =
     (if p = 0 then Inl Null_pointer
      else if cell_at w p = None then Inl Wild_pointer
      else Inr (w\<lparr>heap := (heap w)[p - 1 := Some c]\<rparr>))"

definition free :: "addr \<Rightarrow> world \<Rightarrow> fault + world" where
  "free p w =
     (if p = 0 then Inr w
      else if cell_at w p = None then Inl Wild_pointer
      else Inr (w\<lparr>heap := (heap w)[p - 1 := None]\<rparr>))"

subsection \<open>The storage of vars\<close>

text \<open>
  The bridge keeps the storage of a var for as long as the var is held: the ten constants
  are never released, and an event acquired from the bridge holds its var and the vars
  that var hands out, until \<^verbatim>\<open>PSEventRelease\<close>. (The source never releases what
  \<^verbatim>\<open>Get\<close> returned, which would keep those vars longer; the model does not count on
  it.) Reading the bytes of a var that is no longer held is a fault.
\<close>

fun held_by :: "PP_Var \<Rightarrow> PP_Var \<Rightarrow> bool" where
  "held_by (Dictionary_var kvs) v = (v = Dictionary_var kvs \<or> v \<in> snd ` set kvs)"
| "held_by (Array_var vs) v = (v = Array_var vs \<or> v \<in> set vs)"
| "held_by m v = (v = m)"

definition alive :: "world \<Rightarrow> PP_Var \<Rightarrow> bool" where
  "alive w v = (v \<in> set constants \<or> (\<exists>m \<in> set (acquired w). held_by m v))"

fun bytes_at :: "world \<Rightarrow> cptr \<Rightarrow> fault + string" where
  "bytes_at w Null_ptr = Inl Null_pointer"
| "bytes_at w (Block p) =
     (case cell_at w p of Some (Chars b) \<Rightarrow> Inr b | _ \<Rightarrow> Inl Wild_pointer)"
| "bytes_at w (Var_bytes v) =
     (if alive w v then (case v of String_var s \<Rightarrow> Inr s | _ \<Rightarrow> Inl Wild_pointer)
      else Inl Dangling_pointer)"

text \<open>Writing goes to blocks of \<^verbatim>\<open>malloc\<close> only; the bytes of a var are the bridge's.\<close>

fun write_at :: "cptr \<Rightarrow> string \<Rightarrow> world \<Rightarrow> fault + world" where
  "write_at Null_ptr b w = Inl Null_pointer"
| "write_at (Block p) b w = store p (Chars b) w"
| "write_at (Var_bytes v) b w = Inl Wild_pointer"

subsection \<open>The C library on byte buffers\<close>

text \<open>
  A read or write past the end of a buffer, or through \<^verbatim>\<open>NULL\<close>, is a fault. With
  \<open>n = 0\<close> nothing is read or written, whatever the pointers.
\<close>

fun strlen :: "string \<Rightarrow> fault + nat" where
  "strlen [] = Inl Overrun"
| "strlen (c # cs) =
     (if c = NUL then Inr 0 else (case strlen cs of Inl e \<Rightarrow> Inl e | Inr n \<Rightarrow> Inr (Suc n)))"

text \<open>The \<open>n\<close> bytes \<^verbatim>\<open>strncpy\<close> writes: the source up to its NUL, then NULs.\<close>

fun strncpy_bytes :: "string \<Rightarrow> nat \<Rightarrow> fault + string" where
  "strncpy_bytes src 0 = Inr []"
| "strncpy_bytes [] (Suc n) = Inl Overrun"
| "strncpy_bytes (c # cs) (Suc n) =
     (if c = NUL then Inr (replicate (Suc n) NUL)
      else (case strncpy_bytes cs n of Inl e \<Rightarrow> Inl e | Inr bs \<Rightarrow> Inr (c # bs)))"

definition strncpy :: "cptr \<Rightarrow> cptr \<Rightarrow> nat \<Rightarrow> world \<Rightarrow> fault + world" where
  "strncpy dst src n w =
     (if n = 0 then Inr w
      else and_then (bytes_at w src) (\<lambda>s.
           and_then (bytes_at w dst) (\<lambda>b.
           if length b < n then Inl Overrun
           else and_then (strncpy_bytes s n) (\<lambda>bs. write_at dst (bs @ drop n b) w))))"

text \<open>\<^verbatim>\<open>dst[i] = c\<close>.\<close>

definition poke :: "cptr \<Rightarrow> nat \<Rightarrow> char \<Rightarrow> world \<Rightarrow> fault + world" where
  "poke dst i c w =
     and_then (bytes_at w dst) (\<lambda>b.
     if i < length b then write_at dst (b[i := c]) w else Inl Overrun)"

fun strncmp_bytes :: "string \<Rightarrow> string \<Rightarrow> nat \<Rightarrow> fault + int" where
  "strncmp_bytes s1 s2 0 = Inr 0"
| "strncmp_bytes (c1 # s1) (c2 # s2) (Suc n) =
     (if c1 \<noteq> c2 then Inr (int (of_char c1 :: nat) - int (of_char c2 :: nat))
      else if c1 = NUL then Inr 0
      else strncmp_bytes s1 s2 n)"
| "strncmp_bytes s1 s2 (Suc n) = Inl Overrun"

definition strncmp :: "cptr \<Rightarrow> cptr \<Rightarrow> nat \<Rightarrow> world \<Rightarrow> fault + int" where
  "strncmp p1 p2 n w =
     (if n = 0 then Inr 0
      else and_then (bytes_at w p1) (\<lambda>s1.
           and_then (bytes_at w p2) (\<lambda>s2.
           strncmp_bytes s1 s2 n)))"

section \<open>The functions of \<^verbatim>\<open>vim_pepper.c\<close>\<close>

subsection \<open>\<^verbatim>\<open>var_to_cstr\<close> and \<^verbatim>\<open>pp_strcmp\<close>\<close>

definition var_to_cstr :: "PP_Var \<Rightarrow> world \<Rightarrow> fault + (cptr \<times> world)" where
  "var_to_cstr str_var w =
     (let (vstr, var_len) = VarToUtf8 str_var;
          (p, w1) = malloc (var_len + 1) w;
          cstr = Block p
      in and_then (strncpy cstr vstr var_len w1) (\<lambda>w2.
         and_then (poke cstr var_len NUL w2) (\<lambda>w3.
         Inr (cstr, w3))))"

text \<open>
  \<^verbatim>\<open>cmp = v1len - v2len\<close> is computed on \<^verbatim>\<open>uint32_t\<close> and read as an \<^verbatim>\<open>int\<close>; on the
  lengths below \<open>2 ^ 32\<close> that is zero exactly when the difference of the naturals is, and
  the callers only test for zero.
\<close>

definition pp_strcmp :: "PP_Var \<Rightarrow> PP_Var \<Rightarrow> world \<Rightarrow> fault + int" where
  "pp_strcmp v1 v2 w =
     (let (v1str, v1len) = VarToUtf8 v1;
          (v2str, v2len) = VarToUtf8 v2;
          n = (if v1len < v2len then v1len else v2len)
      in and_then (strncmp v1str v2str n w) (\<lambda>cmp.
         Inr (if cmp = 0 then int v1len - int v2len else cmp)))"

subsection \<open>Messaging\<close>

text \<open>
  \<^verbatim>\<open>PostMessage\<close> returns nothing. A bridge that does not deliver drops the message.
\<close>

definition PostMessage :: "PP_Var \<Rightarrow> world \<Rightarrow> world" where
  "PostMessage msg w = (if delivering w then w\<lparr>outbox := outbox w @ [msg]\<rparr> else w)"

definition Release :: "PP_Var \<Rightarrow> world \<Rightarrow> world" where
  "Release v w = w\<lparr>released := released w @ [v]\<rparr>"

record PSEvent =
  as_var :: PP_Var

text \<open>
  \<^verbatim>\<open>PSEventWaitAcquire\<close> returns the next event, which the program holds from then on;
  \<^verbatim>\<open>PSEventRelease\<close> gives it back, and with it the storage of its var.
\<close>

definition PSEventWaitAcquire :: "PSEvent \<Rightarrow> world \<Rightarrow> world" where
  "PSEventWaitAcquire event w = w\<lparr>acquired := as_var event # acquired w\<rparr>"

definition PSEventRelease :: "PSEvent \<Rightarrow> world \<Rightarrow> world" where
  "PSEventRelease event w =
     Release (as_var event) (w\<lparr>acquired := remove1 (as_var event) (acquired w)\<rparr>)"

text \<open>
  \<^verbatim>\<open>js_printf\<close>, for the two calls of the file, whose format has no conversion: \<^verbatim>\<open>vasprintf\<close>
  allocates the text (it is never freed), and the text goes to JavaScript as a string var.
\<close>

definition js_printf :: "string \<Rightarrow> world \<Rightarrow> world" where
  "js_printf format w =
     (let (str, w1) = alloc (Chars (format @ [NUL])) w;
          msg = VarFromUtf8 format (length format)
      in Release msg (PostMessage msg w1))"

text \<open>
  Modelled from the spec: \<^verbatim>\<open>collab_enqueue\<close> and \<^verbatim>\<open>collab_queue\<close> (\<^verbatim>\<open>collaborate.c\<close>) are
  not among the sources. Section 4.4: push never blocks and adds the operation at the back
  of a first-in first-out queue.
\<close>

definition collab_enqueue :: "addr \<Rightarrow> world \<Rightarrow> world" where
  "collab_enqueue edit w = w\<lparr>collab_queue := collab_queue w @ [edit]\<rparr>"

subsection \<open>\<^verbatim>\<open>js_msgloop\<close>\<close>

text \<open>
  The chain of comparisons in the loop, from "Parse the specific type of collabedit" to
  the end of its last \<^verbatim>\<open>else\<close>. \<open>edit\<close> is the block allocated before; the result is the
  pointer \<^verbatim>\<open>edit\<close> afterwards, \<^verbatim>\<open>NULL\<close> for an unknown type.
\<close>

definition parse_edit :: "PP_Var \<Rightarrow> addr \<Rightarrow> world \<Rightarrow> fault + (addr \<times> world)" where
  "parse_edit dict edit w =
     (let var_type = dict_Get dict type_key;
          int_of = (\<lambda>key. as_int (raw_bits w) (dict_Get dict key))
      in
      and_then (pp_strcmp var_type type_append_line w) (\<lambda>c1.
      if c1 = 0 then
        and_then (var_to_cstr (dict_Get dict text_key) w) (\<lambda>(text, w1).
        and_then (store edit (Edit \<lparr>file_buf = curbuf w,
                    body = Append_line (int_of line_key) text\<rparr>) w1) (\<lambda>w2.
        Inr (edit, w2)))
      else
      and_then (pp_strcmp var_type type_insert_text w) (\<lambda>c2.
      if c2 = 0 then
        and_then (var_to_cstr (dict_Get dict text_key) w) (\<lambda>(text, w1).
        and_then (store edit (Edit \<lparr>file_buf = curbuf w,
                    body = Insert_text (int_of line_key) (int_of index_key) text\<rparr>) w1) (\<lambda>w2.
        Inr (edit, w2)))
      else
      and_then (pp_strcmp var_type type_remove_line w) (\<lambda>c3.
      if c3 = 0 then
        and_then (store edit (Edit \<lparr>file_buf = curbuf w,
                    body = Remove_line (int_of line_key)\<rparr>) w) (\<lambda>w2.
        Inr (edit, w2))
      else
      and_then (pp_strcmp var_type type_delete_text w) (\<lambda>c4.
      if c4 = 0 then
        and_then (store edit (Edit \<lparr>file_buf = curbuf w,
                    body = Delete_text (int_of line_key) (int_of index_key)
                             (int_of length_key)\<rparr>) w) (\<lambda>w2.
        Inr (edit, w2))
      else
      and_then (pp_strcmp var_type type_replace_line w) (\<lambda>c5.
      if c5 = 0 then
        and_then (var_to_cstr (dict_Get dict text_key) w) (\<lambda>(text, w1).
        and_then (store edit (Edit \<lparr>file_buf = curbuf w,
                    body = Replace_line (int_of line_key) text\<rparr>) w1) (\<lambda>w2.
        Inr (edit, w2)))
      else
        and_then (free edit (js_printf ''info: msgloop unknown collabedit type'' w)) (\<lambda>w2.
        Inr (0, w2))))))))"

text \<open>
  One turn of \<^verbatim>\<open>while (1)\<close>, for the event \<^verbatim>\<open>PSEventWaitAcquire\<close> returns. The filtered
  message is skipped by \<^verbatim>\<open>continue\<close>, before \<^verbatim>\<open>PSEventRelease\<close>.
\<close>

definition msgloop_body :: "PSEvent \<Rightarrow> world \<Rightarrow> fault + world" where
  "msgloop_body event w0 =
     (let w = PSEventWaitAcquire event w0;
          dict = as_var event in
      if var_type dict \<noteq> PP_VARTYPE_DICTIONARY \<or> \<not> dict_HasKey dict type_key then
        Inr (js_printf ''info: msgloop skipping non collabedit dict'' w)
      else
        (let (edit, w1) = alloc Uninit w in
         and_then (parse_edit dict edit w1) (\<lambda>(edit, w2).
         Inr (PSEventRelease event
                (if edit \<noteq> 0 then collab_enqueue edit w2 else w2)))))"

text \<open>
  The loop never leaves on its own. \<^verbatim>\<open>PSEventSetFilter\<close> lets through the events of
  messages from JavaScript only, and of such an event the loop reads the var. It is run here
  on the events the bridge has delivered so far; when they are used up it is waiting in
  \<^verbatim>\<open>PSEventWaitAcquire\<close>. A fault ends it.
\<close>

fun js_msgloop :: "PSEvent list \<Rightarrow> world \<Rightarrow> fault + world" where
  "js_msgloop [] w = Inr w"
| "js_msgloop (event # events) w = and_then (msgloop_body event w) (js_msgloop events)"

subsection \<open>\<^verbatim>\<open>collab_remoteapply\<close>\<close>

text \<open>\<^verbatim>\<open>UTF8_TO_VAR(str)\<close> for a string in memory: \<^verbatim>\<open>VarFromUtf8(str, strlen(str))\<close>.\<close>

definition UTF8_TO_VAR :: "cptr \<Rightarrow> world \<Rightarrow> fault + PP_Var" where
  "UTF8_TO_VAR str w =
     and_then (bytes_at w str) (\<lambda>b.
     and_then (strlen b) (\<lambda>n.
     Inr (VarFromUtf8 b n)))"

text \<open>The \<^verbatim>\<open>switch\<close>: the dictionary built for an edit.\<close>

fun edit_dict :: "collab_union \<Rightarrow> world \<Rightarrow> fault + PP_Var" where
  "edit_dict (Append_line line text) w =
     (let dict = dict_Set dict_Create type_key type_append_line;
          dict = dict_Set dict line_key (PP_MakeInt32 line)
      in and_then (UTF8_TO_VAR text w) (\<lambda>v. Inr (dict_Set dict text_key v)))"
| "edit_dict (Insert_text line index text) w =
     (let dict = dict_Set dict_Create type_key type_insert_text;
          dict = dict_Set dict line_key (PP_MakeInt32 line);
          dict = dict_Set dict index_key (PP_MakeInt32 index)
      in and_then (UTF8_TO_VAR text w) (\<lambda>v. Inr (dict_Set dict text_key v)))"
| "edit_dict (Remove_line line) w =
     (let dict = dict_Set dict_Create type_key type_remove_line
      in Inr (dict_Set dict line_key (PP_MakeInt32 line)))"
| "edit_dict (Delete_text line index len) w =
     (let dict = dict_Set dict_Create type_key type_delete_text;
          dict = dict_Set dict line_key (PP_MakeInt32 line);
          dict = dict_Set dict index_key (PP_MakeInt32 index)
      in Inr (dict_Set dict length_key (PP_MakeInt32 len)))"
| "edit_dict (Replace_line line text) w =
     (let dict = dict_Set dict_Create type_key type_replace_line;
          dict = dict_Set dict line_key (PP_MakeInt32 line)
      in and_then (UTF8_TO_VAR text w) (\<lambda>v. Inr (dict_Set dict text_key v)))"

definition collab_remoteapply :: "addr \<Rightarrow> world \<Rightarrow> fault + world" where
  "collab_remoteapply edit w =
     (case cell_at w edit of
        Some (Edit e) \<Rightarrow>
          and_then (edit_dict (body e) w) (\<lambda>dict.
          Inr (Release dict (PostMessage dict w)))
      | _ \<Rightarrow> if edit = 0 then Inl Null_pointer else Inl Wild_pointer)"

section \<open>The queue between the two threads\<close>

text \<open>
  Modelled from the spec: the pop of the main thread and the locking of the queue
  (\<^verbatim>\<open>collaborate.c\<close>) are not among the sources. Sections 4.4 and 5 of the specification:
  \<open>pop_blocking\<close> takes the operation at the front and suspends the consumer while the queue
  is empty; push and pop never race, so each is one indivisible step, and a run of the two
  threads is an interleaving of such steps. \<open>None\<close> is the consumer still waiting.
\<close>

definition collab_dequeue :: "world \<Rightarrow> (addr \<times> world) option" where
  "collab_dequeue w =
     (case collab_queue w of
        [] \<Rightarrow> None
      | edit # rest \<Rightarrow> Some (edit, w\<lparr>collab_queue := rest\<rparr>))"

text \<open>
  The producer has a sequence of edits to push, the consumer a record of what it popped. A
  schedule says whose turn it is, step by step; a thread with nothing to do on its turn (the
  producer done, the consumer at an empty queue) leaves everything as it is.
\<close>

datatype thread = Producer | Consumer

record threads =
  to_push :: "addr list"
  shared :: world
  popped :: "addr list"

fun turn :: "thread \<Rightarrow> threads \<Rightarrow> threads" where
  "turn Producer s =
     (case to_push s of
        [] \<Rightarrow> s
      | edit # rest \<Rightarrow> s\<lparr>to_push := rest, shared := collab_enqueue edit (shared s)\<rparr>)"
| "turn Consumer s =
     (case collab_dequeue (shared s) of
        None \<Rightarrow> s
      | Some (edit, w) \<Rightarrow> s\<lparr>shared := w, popped := popped s @ [edit]\<rparr>)"

fun interleave :: "thread list \<Rightarrow> threads \<Rightarrow> threads" where
  "interleave [] s = s"
| "interleave (t # sched) s = interleave sched (turn t s)"

definition start :: "addr list \<Rightarrow> world \<Rightarrow> threads" where
  "start ops w = \<lparr>to_push = ops, shared = w, popped = []\<rparr>"

text \<open>Every edit of the run, in the order a first-in first-out queue owes them.\<close>

definition in_flight :: "threads \<Rightarrow> addr list" where
  "in_flight s = popped s @ collab_queue (shared s) @ to_push s"

section \<open>Reading the model\<close>

subsection \<open>Operations as values\<close>

text \<open>
  The specification's EditOperation (section 3): one of five variants with its fields. It
  is what a \<^verbatim>\<open>collabedit_T\<close> in memory stands for: the integers read as signed numbers and
  the text read as a C string, up to its NUL. A text pointer that does not lead to a
  terminated buffer stands for nothing.
\<close>

datatype EditOperation =
    AppendLine int string
  | InsertText int int string
  | RemoveLine int
  | DeleteText int int int
  | ReplaceLine int string

definition c_str :: "world \<Rightarrow> cptr \<Rightarrow> string option" where
  "c_str w p =
     (case bytes_at w p of
        Inr b \<Rightarrow> if NUL \<in> set b then Some (takeWhile (\<lambda>c. c \<noteq> NUL) b) else None
      | Inl e \<Rightarrow> None)"

fun operation_of :: "world \<Rightarrow> collab_union \<Rightarrow> EditOperation option" where
  "operation_of w (Append_line l t) = map_option (AppendLine (sint l)) (c_str w t)"
| "operation_of w (Insert_text l i t) = map_option (InsertText (sint l) (sint i)) (c_str w t)"
| "operation_of w (Remove_line l) = Some (RemoveLine (sint l))"
| "operation_of w (Delete_text l i n) = Some (DeleteText (sint l) (sint i) (sint n))"
| "operation_of w (Replace_line l t) = map_option (ReplaceLine (sint l)) (c_str w t)"

definition operation_at :: "world \<Rightarrow> addr \<Rightarrow> EditOperation option" where
  "operation_at w p =
     (case cell_at w p of Some (Edit e) \<Rightarrow> operation_of w (body e) | _ \<Rightarrow> None)"

fun kind :: "EditOperation \<Rightarrow> collabtype_T" where
  "kind (AppendLine l t) = COLLAB_APPEND_LINE"
| "kind (InsertText l i t) = COLLAB_INSERT_TEXT"
| "kind (RemoveLine l) = COLLAB_REMOVE_LINE"
| "kind (DeleteText l i n) = COLLAB_DELETE_TEXT"
| "kind (ReplaceLine l t) = COLLAB_REPLACE_LINE"

fun text_of :: "collab_union \<Rightarrow> cptr option" where
  "text_of (Append_line l t) = Some t"
| "text_of (Insert_text l i t) = Some t"
| "text_of (Remove_line l) = None"
| "text_of (Delete_text l i n) = None"
| "text_of (Replace_line l t) = Some t"

fun has_text :: "collabtype_T \<Rightarrow> bool" where
  "has_text COLLAB_APPEND_LINE = True"
| "has_text COLLAB_INSERT_TEXT = True"
| "has_text COLLAB_REMOVE_LINE = False"
| "has_text COLLAB_DELETE_TEXT = False"
| "has_text COLLAB_REPLACE_LINE = True"

fun text_in :: "EditOperation \<Rightarrow> string" where
  "text_in (AppendLine l t) = t"
| "text_in (InsertText l i t) = t"
| "text_in (RemoveLine l) = []"
| "text_in (DeleteText l i n) = []"
| "text_in (ReplaceLine l t) = t"

definition text_read :: "world \<Rightarrow> collab_union \<Rightarrow> string option" where
  "text_read w u = (case text_of u of None \<Rightarrow> Some [] | Some t \<Rightarrow> c_str w t)"

fun ints_of :: "collab_union \<Rightarrow> 32 word list" where
  "ints_of (Append_line l t) = [l]"
| "ints_of (Insert_text l i t) = [l, i]"
| "ints_of (Remove_line l) = [l]"
| "ints_of (Delete_text l i n) = [l, i, n]"
| "ints_of (Replace_line l t) = [l]"

text \<open>The operations the queue holds, in its order.\<close>

definition queued :: "fault + world \<Rightarrow> fault + EditOperation option list" where
  "queued r = map_sum id (\<lambda>w. map (operation_at w) (collab_queue w)) r"

text \<open>
  What the editor core has after a call of \<^verbatim>\<open>collab_remoteapply\<close>, a function returning
  \<^verbatim>\<open>void\<close>: its own memory and queue. The outbox belongs to the bridge.
\<close>

definition program_state :: "world \<Rightarrow> cell option list \<times> buf_ref \<times> addr list" where
  "program_state w = (heap w, curbuf w, collab_queue w)"

definition caller_view ::
    "fault + world \<Rightarrow> fault + cell option list \<times> buf_ref \<times> addr list" where
  "caller_view r = map_sum id program_state r"

subsection \<open>The tables of the specification\<close>

text \<open>
  Sections 3 and 4.2 of the specification, in its words: the discriminator of each variant
  and the keys of its message. They are what the claims compare the code with.
\<close>

fun wire_tag :: "collabtype_T \<Rightarrow> string" where
  "wire_tag COLLAB_APPEND_LINE = ''append_line''"
| "wire_tag COLLAB_INSERT_TEXT = ''insert_text''"
| "wire_tag COLLAB_REMOVE_LINE = ''remove_line''"
| "wire_tag COLLAB_DELETE_TEXT = ''delete_text''"
| "wire_tag COLLAB_REPLACE_LINE = ''replace_line''"

fun wire_keys :: "collabtype_T \<Rightarrow> string list" where
  "wire_keys COLLAB_APPEND_LINE = [''collabedit_type'', ''line'', ''text'']"
| "wire_keys COLLAB_INSERT_TEXT = [''collabedit_type'', ''line'', ''index'', ''text'']"
| "wire_keys COLLAB_REMOVE_LINE = [''collabedit_type'', ''line'']"
| "wire_keys COLLAB_DELETE_TEXT = [''collabedit_type'', ''line'', ''index'', ''length'']"
| "wire_keys COLLAB_REPLACE_LINE = [''collabedit_type'', ''line'', ''text'']"

text \<open>The keys whose \<^verbatim>\<open>as_int\<close> the loop stores for a variant, in the order of \<open>ints_of\<close>.\<close>

fun int_keys :: "collabtype_T \<Rightarrow> PP_Var list" where
  "int_keys COLLAB_APPEND_LINE = [line_key]"
| "int_keys COLLAB_INSERT_TEXT = [line_key, index_key]"
| "int_keys COLLAB_REMOVE_LINE = [line_key]"
| "int_keys COLLAB_DELETE_TEXT = [line_key, index_key, length_key]"
| "int_keys COLLAB_REPLACE_LINE = [line_key]"

definition known_types :: "PP_Var list" where
  "known_types = [type_append_line, type_insert_text, type_remove_line, type_delete_text,
     type_replace_line]"

subsection \<open>Closed forms used in the proofs\<close>

text \<open>
  The bytes \<^verbatim>\<open>strncpy\<close> writes when it copies a whole buffer, the buffer \<^verbatim>\<open>var_to_cstr\<close>
  leaves for a var, and the dictionary \<^verbatim>\<open>collab_remoteapply\<close> builds for an edit whose
  text reads \<open>s\<close>. Each is proved equal to what the function computes.
\<close>

text \<open>A var the program may read with \<^verbatim>\<open>VarToUtf8\<close>: a string var must still be held.\<close>

definition readable :: "world \<Rightarrow> PP_Var \<Rightarrow> bool" where
  "readable w v = (if var_type v = PP_VARTYPE_STRING then alive w v else True)"

definition padded :: "string \<Rightarrow> string" where
  "padded s = takeWhile (\<lambda>c. c \<noteq> NUL) s @
     replicate (length s - length (takeWhile (\<lambda>c. c \<noteq> NUL) s)) NUL"

fun cstr_of :: "PP_Var \<Rightarrow> string" where
  "cstr_of (String_var s) = padded s @ [NUL]"
| "cstr_of v = [NUL]"

text \<open>
  A var read as a C string: the bytes of a string var before its first NUL, all of them
  when it has none; nothing for a var that is not a string.
\<close>

fun wire_text :: "PP_Var \<Rightarrow> string" where
  "wire_text (String_var s) = takeWhile (\<lambda>c. c \<noteq> NUL) s"
| "wire_text v = []"

fun wire_of :: "collab_union \<Rightarrow> string \<Rightarrow> PP_Var" where
  "wire_of (Append_line l t) s = Dictionary_var
     [(''collabedit_type'', String_var ''append_line''), (''line'', Int32_var l),
      (''text'', VarFromUtf8 s (length s))]"
| "wire_of (Insert_text l i t) s = Dictionary_var
     [(''collabedit_type'', String_var ''insert_text''), (''line'', Int32_var l),
      (''index'', Int32_var i), (''text'', VarFromUtf8 s (length s))]"
| "wire_of (Remove_line l) s = Dictionary_var
     [(''collabedit_type'', String_var ''remove_line''), (''line'', Int32_var l)]"
| "wire_of (Delete_text l i n) s = Dictionary_var
     [(''collabedit_type'', String_var ''delete_text''), (''line'', Int32_var l),
      (''index'', Int32_var i), (''length'', Int32_var n)]"
| "wire_of (Replace_line l t) s = Dictionary_var
     [(''collabedit_type'', String_var ''replace_line''), (''line'', Int32_var l),
      (''text'', VarFromUtf8 s (length s))]"

subsection \<open>Concrete worlds and messages\<close>

text \<open>
  The world in which the loop starts, with a bridge that delivers and leaves zero bits in
  the vars that carry no number, and an allocator whose fresh blocks are full of \<open>X\<close>; a
  world holding the specification's example \<open>AppendLine{line=4, text="hello"}\<close>, and one
  holding the same line with the text \<open>caf\<close> and the byte \<open>0xE9\<close>, Latin-1 for an
  accented e and not UTF-8. The messages: the first example on the wire, what the bridge
  makes of the second, a line removal at line \<open>-1\<close>, a text insertion without its index, an
  edit of a kind nobody knows, and a line whose text has a NUL byte in its middle.
\<close>

definition world0 :: world where
  "world0 = \<lparr>heap = [], curbuf = 0, collab_queue = [], outbox = [], acquired = [],
     released = [], delivering = True, raw_bits = (\<lambda>v. 0), garbage = (\<lambda>i. CHR ''X'')\<rparr>"

definition world_hello :: world where
  "world_hello = world0\<lparr>heap :=
     [Some (Edit \<lparr>file_buf = 0, body = Append_line 4 (Block 2)\<rparr>),
      Some (Chars (''hello'' @ [NUL]))]\<rparr>"

definition world_cafe :: world where
  "world_cafe = world0\<lparr>heap :=
     [Some (Edit \<lparr>file_buf = 0, body = Append_line 4 (Block 2)\<rparr>),
      Some (Chars (''caf'' @ [CHR 0xE9, NUL]))]\<rparr>"

definition msg_cafe :: PP_Var where
  "msg_cafe = Dictionary_var
     [(''collabedit_type'', String_var ''append_line''), (''line'', Int32_var 4),
      (''text'', Null_var)]"

definition msg_nul :: PP_Var where
  "msg_nul = Dictionary_var
     [(''collabedit_type'', String_var ''append_line''), (''line'', Int32_var 1),
      (''text'', String_var (''ab'' @ [NUL] @ ''cd''))]"

definition msg_hello :: PP_Var where
  "msg_hello = Dictionary_var
     [(''collabedit_type'', String_var ''append_line''), (''line'', Int32_var 4),
      (''text'', String_var ''hello'')]"

definition msg_negative :: PP_Var where
  "msg_negative = Dictionary_var
     [(''collabedit_type'', String_var ''remove_line''), (''line'', Int32_var (- 1))]"

definition msg_no_index :: PP_Var where
  "msg_no_index = Dictionary_var
     [(''collabedit_type'', String_var ''insert_text''), (''line'', Int32_var 2),
      (''text'', String_var ''x'')]"

definition msg_frobnicate :: PP_Var where
  "msg_frobnicate = Dictionary_var [(''collabedit_type'', String_var ''frobnicate'')]"

section \<open>The C library and the two helpers\<close>

subsection \<open>\<^verbatim>\<open>var_to_cstr\<close> leaves a terminated copy and never faults on a held var\<close>

lemma strncpy_bytes_all: "strncpy_bytes s (length s) = Inr (padded s)"
  by (induction s) (simp_all add: padded_def Suc_diff_le length_takeWhile_le)

lemma length_padded: "length (padded s) = length s"
  by (simp add: padded_def length_takeWhile_le)

lemma takeWhile_padded:
  "takeWhile (\<lambda>c. c \<noteq> NUL) (padded s @ [NUL]) = takeWhile (\<lambda>c. c \<noteq> NUL) s"
  by (induction s) (simp_all add: padded_def)

lemma padded_no_NUL: "NUL \<notin> set s \<Longrightarrow> padded s = s"
  by (induction s) (auto simp: padded_def)

lemma takeWhile_terminated:
  "NUL \<notin> set s \<Longrightarrow> takeWhile (\<lambda>c. c \<noteq> NUL) (s @ [NUL]) = s"
  by (induction s) auto

lemma drop_fresh: "drop n (map g [0..<Suc n]) = [g n]"
  by (simp add: drop_map)

lemma alive_heap [simp]: "alive (w\<lparr>heap := h\<rparr>) v = alive w v"
  by (simp add: alive_def)

lemma readable_string: "readable w (String_var s) = alive w (String_var s)"
  by (simp add: readable_def)

lemma readable_other: "var_type v \<noteq> PP_VARTYPE_STRING \<Longrightarrow> readable w v"
  by (simp add: readable_def)

lemma VarToUtf8_other: "var_type v \<noteq> PP_VARTYPE_STRING \<Longrightarrow> VarToUtf8 v = (Null_ptr, 0)"
  by (cases v) simp_all

lemma cstr_of_other: "var_type v \<noteq> PP_VARTYPE_STRING \<Longrightarrow> cstr_of v = [NUL]"
  by (cases v) simp_all

lemma var_to_cstr_eq:
  assumes "readable w v"
  shows "var_to_cstr v w =
     Inr (Block (Suc (length (heap w))), w\<lparr>heap := heap w @ [Some (Chars (cstr_of v))]\<rparr>)"
proof (cases "var_type v = PP_VARTYPE_STRING")
  case True
  then obtain s where v: "v = String_var s" by (cases v) simp_all
  with assms have a: "alive w (String_var s)" by (simp add: readable_def)
  show ?thesis
  proof (cases "s = []")
    case True
    with v show ?thesis
      by (simp add: var_to_cstr_def malloc_def alloc_def strncpy_def poke_def cell_at_def
          store_def and_then_def padded_def)
  next
    case False
    with v a show ?thesis
      by (simp add: var_to_cstr_def malloc_def alloc_def strncpy_def poke_def cell_at_def
          store_def and_then_def strncpy_bytes_all length_padded nth_append list_update_append
          drop_fresh del: upt_Suc)
  qed
next
  case False
  then show ?thesis
    by (simp add: VarToUtf8_other cstr_of_other var_to_cstr_def malloc_def alloc_def
        strncpy_def poke_def cell_at_def store_def and_then_def)
qed

subsection \<open>\<^verbatim>\<open>pp_strcmp\<close> never faults on held vars and is zero on equal strings only\<close>

lemma strncmp_bytes_total:
  "n \<le> length a \<Longrightarrow> n \<le> length b \<Longrightarrow> \<exists>k. strncmp_bytes a b n = Inr k"
  by (induction a b n rule: strncmp_bytes.induct) simp_all

lemma strncmp_bytes_zero:
  "n \<le> length a \<Longrightarrow> n \<le> length b \<Longrightarrow> NUL \<notin> set (take n b) \<Longrightarrow>
   strncmp_bytes a b n = Inr 0 \<Longrightarrow> take n a = take n b"
  by (induction a b n rule: strncmp_bytes.induct) (auto split: if_splits)

lemma strncmp_bytes_same: "n \<le> length a \<Longrightarrow> strncmp_bytes a a n = Inr 0"
proof (induction a arbitrary: n)
  case Nil
  then show ?case by simp
next
  case (Cons c cs)
  then show ?case by (cases n) simp_all
qed

lemma pp_strcmp_strings:
  assumes "alive w (String_var s)" and "alive w (String_var c)"
  shows "pp_strcmp (String_var s) (String_var c) w =
     (if min (length s) (length c) = 0 then Inr (int (length s) - int (length c))
      else and_then (strncmp_bytes s c (min (length s) (length c)))
             (\<lambda>cmp. Inr (if cmp = 0 then int (length s) - int (length c) else cmp)))"
  using assms
  by (auto simp: pp_strcmp_def strncmp_def and_then_def Let_def min_def)

lemma pp_strcmp_other:
  assumes "var_type v \<noteq> PP_VARTYPE_STRING"
  shows "pp_strcmp v (String_var c) w = Inr (- int (length c))"
  using assms by (simp add: VarToUtf8_other pp_strcmp_def strncmp_def and_then_def)

lemma pp_strcmp_total:
  assumes "readable w v" and "alive w (String_var c)"
  shows "\<exists>k. pp_strcmp v (String_var c) w = Inr k"
proof (cases "var_type v = PP_VARTYPE_STRING")
  case True
  then obtain s where v: "v = String_var s" by (cases v) simp_all
  with assms have a: "alive w (String_var s)" by (simp add: readable_def)
  obtain k where "strncmp_bytes s c (min (length s) (length c)) = Inr k"
    using strncmp_bytes_total [of "min (length s) (length c)" s c] by auto
  with v show ?thesis
    by (simp add: pp_strcmp_strings [OF a assms(2)] and_then_def)
next
  case False
  then show ?thesis by (simp add: pp_strcmp_other)
qed

lemma pp_strcmp_zero_iff:
  assumes "NUL \<notin> set c" and "c \<noteq> []" and "readable w v" and "alive w (String_var c)"
  shows "pp_strcmp v (String_var c) w = Inr 0 \<longleftrightarrow> v = String_var c"
proof (cases "var_type v = PP_VARTYPE_STRING")
  case True
  then obtain s where v: "v = String_var s" by (cases v) simp_all
  with assms have a: "alive w (String_var s)" by (simp add: readable_def)
  show ?thesis
  proof
    assume "v = String_var c"
    with assms(2) show "pp_strcmp v (String_var c) w = Inr 0"
      by (simp add: pp_strcmp_strings [OF assms(4) assms(4)] and_then_def strncmp_bytes_same)
  next
    assume z: "pp_strcmp v (String_var c) w = Inr 0"
    with v assms(2) have len: "length s = length c"
      by (auto simp: pp_strcmp_strings [OF a assms(4)] and_then_def min_def
          split: sum.splits if_splits)
    with z v assms(2) have "strncmp_bytes s c (length c) = Inr 0"
      by (auto simp: pp_strcmp_strings [OF a assms(4)] and_then_def
          split: sum.splits if_splits)
    with len assms(1) strncmp_bytes_zero [of "length c" s c] have "s = c" by auto
    with v show "v = String_var c" by simp
  qed
next
  case False
  with assms(2) show ?thesis by (auto simp: pp_strcmp_other)
qed

lemma chain_step:
  assumes "NUL \<notin> set c" and "c \<noteq> []" and "readable w v" and "alive w (String_var c)"
  shows "and_then (pp_strcmp v (String_var c) w) (\<lambda>k. if k = 0 then A else B) =
         (if v = String_var c then A else B)"
proof -
  obtain k where k: "pp_strcmp v (String_var c) w = Inr k"
    using pp_strcmp_total [OF assms(3,4)] by blast
  with pp_strcmp_zero_iff [OF assms] have "k = 0 \<longleftrightarrow> v = String_var c" by simp
  with k show ?thesis by (simp add: and_then_def)
qed

section \<open>One turn of the loop, case by case\<close>

lemmas type_defs = type_append_line_def type_insert_text_def type_remove_line_def
  type_delete_text_def type_replace_line_def

lemmas key_defs = type_key_def line_key_def text_key_def index_key_def length_key_def

lemma alive_constant: "v \<in> set constants \<Longrightarrow> alive w v"
  by (simp add: alive_def)

lemma alive_types:
  "alive w type_append_line" "alive w type_insert_text" "alive w type_remove_line"
  "alive w type_delete_text" "alive w type_replace_line"
  by (simp_all add: alive_def constants_def)

lemma dict_Get_defined:
  "dict_Get d k \<noteq> Undefined_var \<Longrightarrow> var_type d = PP_VARTYPE_DICTIONARY \<and> dict_HasKey d k"
  by (cases d; cases k) (auto split: option.splits)

lemma dict_Get_held: "dict_Get d k \<noteq> Undefined_var \<Longrightarrow> held_by d (dict_Get d k)"
proof (cases d; cases k)
  fix kvs key
  assume d: "d = Dictionary_var kvs" and k: "k = String_var key"
    and "dict_Get d k \<noteq> Undefined_var"
  then obtain v where "map_of kvs key = Some v" "dict_Get d k = v"
    by (auto split: option.splits)
  then have "(key, v) \<in> set kvs" "dict_Get d k = v" by (auto dest: map_of_SomeD)
  then have "dict_Get d k \<in> snd ` set kvs" by force
  with d show "held_by d (dict_Get d k)" by simp
qed simp_all

lemma readable_Get:
  "m \<in> set (acquired w) \<Longrightarrow> readable w (dict_Get m k)"
proof (cases "dict_Get m k = Undefined_var")
  case True
  then show ?thesis by (simp add: readable_def)
next
  case False
  assume "m \<in> set (acquired w)"
  with dict_Get_held [OF False] show ?thesis by (auto simp: readable_def alive_def)
qed

lemma readable_heap [simp]: "readable (w\<lparr>heap := h\<rparr>) v = readable w v"
  by (simp add: readable_def)

lemma store_fresh:
  "store (Suc (length h)) c (w\<lparr>heap := h @ Some c0 # rest\<rparr>) =
     Inr (w\<lparr>heap := h @ Some c # rest\<rparr>)"
  by (simp add: store_def cell_at_def nth_append list_update_append)

lemma parse_edit_chain:
  assumes "readable w (dict_Get dict type_key)"
  shows "parse_edit dict edit w =
     (let var_type = dict_Get dict type_key;
          int_of = (\<lambda>key. as_int (raw_bits w) (dict_Get dict key))
      in
      if var_type = type_append_line then
        and_then (var_to_cstr (dict_Get dict text_key) w) (\<lambda>(text, w1).
        and_then (store edit (Edit \<lparr>file_buf = curbuf w,
                    body = Append_line (int_of line_key) text\<rparr>) w1) (\<lambda>w2.
        Inr (edit, w2)))
      else if var_type = type_insert_text then
        and_then (var_to_cstr (dict_Get dict text_key) w) (\<lambda>(text, w1).
        and_then (store edit (Edit \<lparr>file_buf = curbuf w,
                    body = Insert_text (int_of line_key) (int_of index_key) text\<rparr>) w1) (\<lambda>w2.
        Inr (edit, w2)))
      else if var_type = type_remove_line then
        and_then (store edit (Edit \<lparr>file_buf = curbuf w,
                    body = Remove_line (int_of line_key)\<rparr>) w) (\<lambda>w2.
        Inr (edit, w2))
      else if var_type = type_delete_text then
        and_then (store edit (Edit \<lparr>file_buf = curbuf w,
                    body = Delete_text (int_of line_key) (int_of index_key)
                             (int_of length_key)\<rparr>) w) (\<lambda>w2.
        Inr (edit, w2))
      else if var_type = type_replace_line then
        and_then (var_to_cstr (dict_Get dict text_key) w) (\<lambda>(text, w1).
        and_then (store edit (Edit \<lparr>file_buf = curbuf w,
                    body = Replace_line (int_of line_key) text\<rparr>) w1) (\<lambda>w2.
        Inr (edit, w2)))
      else
        and_then (free edit (js_printf ''info: msgloop unknown collabedit type'' w)) (\<lambda>w2.
        Inr (0, w2)))"
proof -
  note a = alive_types [of w, unfolded type_defs]
  show ?thesis
    unfolding parse_edit_def Let_def type_defs
    by (simp only: chain_step [where c = "''append_line''", OF _ _ assms a(1), simplified]
        chain_step [where c = "''insert_text''", OF _ _ assms a(2), simplified]
        chain_step [where c = "''remove_line''", OF _ _ assms a(3), simplified]
        chain_step [where c = "''delete_text''", OF _ _ assms a(4), simplified]
        chain_step [where c = "''replace_line''", OF _ _ assms a(5), simplified])
qed

lemma utf8_skipping: "utf8 ''info: msgloop skipping non collabedit dict''"
  by (simp add: byte_def)

lemma utf8_unknown: "utf8 ''info: msgloop unknown collabedit type''"
  by (simp add: byte_def)

lemma body_skip_world:
  assumes "var_type (as_var ev) \<noteq> PP_VARTYPE_DICTIONARY \<or> \<not> dict_HasKey (as_var ev) type_key"
  shows "msgloop_body ev w =
    Inr (w\<lparr>heap := heap w @
           [Some (Chars (''info: msgloop skipping non collabedit dict'' @ [NUL]))],
          outbox := outbox (PostMessage (String_var ''info: msgloop skipping non collabedit dict'') w),
          acquired := as_var ev # acquired w,
          released := released w @
            [String_var ''info: msgloop skipping non collabedit dict'']\<rparr>)"
proof -
  have "VarFromUtf8 ''info: msgloop skipping non collabedit dict''
      (length ''info: msgloop skipping non collabedit dict'') =
      String_var ''info: msgloop skipping non collabedit dict''"
    using utf8_skipping by (simp add: VarFromUtf8_def)
  with assms show ?thesis
    by (auto simp: msgloop_body_def PSEventWaitAcquire_def js_printf_def alloc_def
        PostMessage_def Release_def Let_def)
qed

lemma body_parse:
  "var_type (as_var ev) = PP_VARTYPE_DICTIONARY \<Longrightarrow> dict_HasKey (as_var ev) type_key \<Longrightarrow>
   msgloop_body ev w =
     and_then (parse_edit (as_var ev) (Suc (length (heap w)))
         (w\<lparr>acquired := as_var ev # acquired w, heap := heap w @ [Some Uninit]\<rparr>))
       (\<lambda>(edit, w2). Inr (PSEventRelease ev (if edit \<noteq> 0 then collab_enqueue edit w2 else w2)))"
  by (simp add: msgloop_body_def PSEventWaitAcquire_def Let_def alloc_def)

lemma readable_in_turn:
  "readable (w\<lparr>acquired := as_var ev # acquired w, heap := h\<rparr>) (dict_Get (as_var ev) k)"
  by (rule readable_Get) simp

lemma type_distinct:
  "type_append_line \<noteq> type_insert_text" "type_append_line \<noteq> type_remove_line"
  "type_append_line \<noteq> type_delete_text" "type_append_line \<noteq> type_replace_line"
  "type_insert_text \<noteq> type_remove_line" "type_insert_text \<noteq> type_delete_text"
  "type_insert_text \<noteq> type_replace_line" "type_remove_line \<noteq> type_delete_text"
  "type_remove_line \<noteq> type_replace_line" "type_delete_text \<noteq> type_replace_line"
  "type_append_line \<noteq> Undefined_var" "type_insert_text \<noteq> Undefined_var"
  "type_remove_line \<noteq> Undefined_var" "type_delete_text \<noteq> Undefined_var"
  "type_replace_line \<noteq> Undefined_var"
  by (simp_all add: type_defs)

lemmas type_neq = type_distinct type_distinct [symmetric]

lemma body_append_line:
  assumes "dict_Get (as_var ev) type_key = type_append_line"
  shows "msgloop_body ev w =
    Inr (w\<lparr>heap := heap w @
           [Some (Edit \<lparr>file_buf = curbuf w,
              body = Append_line (as_int (raw_bits w) (dict_Get (as_var ev) line_key))
                       (Block (Suc (Suc (length (heap w)))))\<rparr>),
            Some (Chars (cstr_of (dict_Get (as_var ev) text_key)))],
          collab_queue := collab_queue w @ [Suc (length (heap w))],
          released := released w @ [as_var ev]\<rparr>)"
proof -
  from assms dict_Get_defined [of "as_var ev" type_key]
  have "var_type (as_var ev) = PP_VARTYPE_DICTIONARY" "dict_HasKey (as_var ev) type_key"
    by (simp_all add: type_distinct)
  then show ?thesis
    using assms
    by (simp add: body_parse parse_edit_chain [OF readable_in_turn]
        var_to_cstr_eq [OF readable_in_turn] and_then_def
        store_fresh [where rest = "[]", simplified] store_fresh
        collab_enqueue_def PSEventRelease_def Release_def)
qed

lemma body_insert_text:
  assumes "dict_Get (as_var ev) type_key = type_insert_text"
  shows "msgloop_body ev w =
    Inr (w\<lparr>heap := heap w @
           [Some (Edit \<lparr>file_buf = curbuf w,
              body = Insert_text (as_int (raw_bits w) (dict_Get (as_var ev) line_key))
                       (as_int (raw_bits w) (dict_Get (as_var ev) index_key))
                       (Block (Suc (Suc (length (heap w)))))\<rparr>),
            Some (Chars (cstr_of (dict_Get (as_var ev) text_key)))],
          collab_queue := collab_queue w @ [Suc (length (heap w))],
          released := released w @ [as_var ev]\<rparr>)"
proof -
  from assms dict_Get_defined [of "as_var ev" type_key]
  have "var_type (as_var ev) = PP_VARTYPE_DICTIONARY" "dict_HasKey (as_var ev) type_key"
    by (simp_all add: type_distinct)
  then show ?thesis
    using assms
    by (simp add: body_parse parse_edit_chain [OF readable_in_turn]
        var_to_cstr_eq [OF readable_in_turn] and_then_def type_neq
        store_fresh [where rest = "[]", simplified] store_fresh
        collab_enqueue_def PSEventRelease_def Release_def)
qed

lemma body_remove_line:
  assumes "dict_Get (as_var ev) type_key = type_remove_line"
  shows "msgloop_body ev w =
    Inr (w\<lparr>heap := heap w @
           [Some (Edit \<lparr>file_buf = curbuf w,
              body = Remove_line (as_int (raw_bits w) (dict_Get (as_var ev) line_key))\<rparr>)],
          collab_queue := collab_queue w @ [Suc (length (heap w))],
          released := released w @ [as_var ev]\<rparr>)"
proof -
  from assms dict_Get_defined [of "as_var ev" type_key]
  have "var_type (as_var ev) = PP_VARTYPE_DICTIONARY" "dict_HasKey (as_var ev) type_key"
    by (simp_all add: type_distinct)
  then show ?thesis
    using assms
    by (simp add: body_parse parse_edit_chain [OF readable_in_turn] and_then_def type_neq
        store_fresh [where rest = "[]", simplified]
        collab_enqueue_def PSEventRelease_def Release_def)
qed

lemma body_delete_text:
  assumes "dict_Get (as_var ev) type_key = type_delete_text"
  shows "msgloop_body ev w =
    Inr (w\<lparr>heap := heap w @
           [Some (Edit \<lparr>file_buf = curbuf w,
              body = Delete_text (as_int (raw_bits w) (dict_Get (as_var ev) line_key))
                       (as_int (raw_bits w) (dict_Get (as_var ev) index_key))
                       (as_int (raw_bits w) (dict_Get (as_var ev) length_key))\<rparr>)],
          collab_queue := collab_queue w @ [Suc (length (heap w))],
          released := released w @ [as_var ev]\<rparr>)"
proof -
  from assms dict_Get_defined [of "as_var ev" type_key]
  have "var_type (as_var ev) = PP_VARTYPE_DICTIONARY" "dict_HasKey (as_var ev) type_key"
    by (simp_all add: type_distinct)
  then show ?thesis
    using assms
    by (simp add: body_parse parse_edit_chain [OF readable_in_turn] and_then_def type_neq
        store_fresh [where rest = "[]", simplified]
        collab_enqueue_def PSEventRelease_def Release_def)
qed

lemma body_replace_line:
  assumes "dict_Get (as_var ev) type_key = type_replace_line"
  shows "msgloop_body ev w =
    Inr (w\<lparr>heap := heap w @
           [Some (Edit \<lparr>file_buf = curbuf w,
              body = Replace_line (as_int (raw_bits w) (dict_Get (as_var ev) line_key))
                       (Block (Suc (Suc (length (heap w)))))\<rparr>),
            Some (Chars (cstr_of (dict_Get (as_var ev) text_key)))],
          collab_queue := collab_queue w @ [Suc (length (heap w))],
          released := released w @ [as_var ev]\<rparr>)"
proof -
  from assms dict_Get_defined [of "as_var ev" type_key]
  have "var_type (as_var ev) = PP_VARTYPE_DICTIONARY" "dict_HasKey (as_var ev) type_key"
    by (simp_all add: type_distinct)
  then show ?thesis
    using assms
    by (simp add: body_parse parse_edit_chain [OF readable_in_turn]
        var_to_cstr_eq [OF readable_in_turn] and_then_def type_neq
        store_fresh [where rest = "[]", simplified] store_fresh
        collab_enqueue_def PSEventRelease_def Release_def)
qed

lemma body_unknown:
  assumes "var_type (as_var ev) = PP_VARTYPE_DICTIONARY" and "dict_HasKey (as_var ev) type_key"
    and "dict_Get (as_var ev) type_key \<notin> set known_types"
  shows "msgloop_body ev w =
    Inr (w\<lparr>heap := heap w @
           [None, Some (Chars (''info: msgloop unknown collabedit type'' @ [NUL]))],
          outbox := outbox (PostMessage (String_var ''info: msgloop unknown collabedit type'') w),
          released := released w @
            [String_var ''info: msgloop unknown collabedit type'', as_var ev]\<rparr>)"
proof -
  have "VarFromUtf8 ''info: msgloop unknown collabedit type''
      (length ''info: msgloop unknown collabedit type'') =
      String_var ''info: msgloop unknown collabedit type''"
    using utf8_unknown by (simp add: VarFromUtf8_def)
  with assms show ?thesis
    by (simp add: body_parse parse_edit_chain [OF readable_in_turn] and_then_def
        known_types_def js_printf_def alloc_def free_def cell_at_def nth_append
        list_update_append PostMessage_def collab_enqueue_def PSEventRelease_def Release_def
        Let_def)
qed

section \<open>Strings and operations in memory\<close>

lemma strlen_eq:
  "NUL \<in> set b \<Longrightarrow> strlen b = Inr (length (takeWhile (\<lambda>c. c \<noteq> NUL) b))"
  by (induction b) auto

lemma c_str_SomeD:
  "c_str w p = Some s \<Longrightarrow>
   \<exists>b. bytes_at w p = Inr b \<and> NUL \<in> set b \<and> s = takeWhile (\<lambda>c. c \<noteq> NUL) b"
  by (auto simp: c_str_def split: sum.splits if_splits)

lemma UTF8_TO_VAR_eq:
  assumes "c_str w p = Some s"
  shows "UTF8_TO_VAR p w = Inr (VarFromUtf8 s (length s))"
proof -
  from assms obtain b where b: "bytes_at w p = Inr b" "NUL \<in> set b"
    "s = takeWhile (\<lambda>c. c \<noteq> NUL) b"
    using c_str_SomeD by blast
  then show ?thesis
    by (simp add: UTF8_TO_VAR_def strlen_eq and_then_def VarFromUtf8_def
        takeWhile_eq_take [symmetric])
qed

lemma c_str_no_NUL: "c_str w p = Some s \<Longrightarrow> NUL \<notin> set s"
  by (auto dest!: c_str_SomeD dest: set_takeWhileD)

lemma c_str_cstr_of:
  "cell_at w p = Some (Chars (cstr_of v)) \<Longrightarrow> c_str w (Block p) = Some (wire_text v)"
  by (cases v) (simp_all add: c_str_def takeWhile_padded)

lemma c_str_fresh:
  "heap w' = h @ [c, Some (Chars (cstr_of v))] \<Longrightarrow>
   c_str w' (Block (Suc (Suc (length h)))) = Some (wire_text v)"
  by (rule c_str_cstr_of) (simp add: cell_at_def nth_append)

lemma operation_atD:
  "operation_at w p = Some op \<Longrightarrow>
   \<exists>e. cell_at w p = Some (Edit e) \<and> operation_of w (body e) = Some op"
  by (auto simp: operation_at_def split: option.splits cell.splits)

lemma kind_operation_of: "operation_of w u = Some op \<Longrightarrow> kind op = collab_type u"
  by (cases u) auto

lemma operation_of_text_read:
  "operation_of w u = Some op \<Longrightarrow> text_read w u = Some (text_in op)"
  by (cases u) (auto simp: text_read_def)

section \<open>What \<^verbatim>\<open>collab_remoteapply\<close> posts\<close>

lemma edit_dict_eq:
  "text_read w u = Some s \<Longrightarrow> edit_dict u w = Inr (wire_of u s)"
  by (cases u)
    (simp_all add: text_read_def UTF8_TO_VAR_eq and_then_def dict_Create_def type_defs key_defs
      PP_MakeInt32_def)

lemma remoteapply_eq:
  assumes "cell_at w edit = Some (Edit e)" and "text_read w (body e) = Some s"
  shows "collab_remoteapply edit w =
           Inr (w\<lparr>outbox := outbox (PostMessage (wire_of (body e) s) w),
                  released := released w @ [wire_of (body e) s]\<rparr>)"
  using assms
  by (simp add: collab_remoteapply_def edit_dict_eq and_then_def Release_def PostMessage_def)

lemma wire_of_keys:
  "\<exists>kvs. wire_of u s = Dictionary_var kvs \<and> map fst kvs = wire_keys (collab_type u) \<and>
     map_of kvs ''collabedit_type'' = Some (String_var (wire_tag (collab_type u)))"
  by (cases u) simp_all

section \<open>Decoding what was encoded\<close>

lemma hello_at: "operation_at world_hello 1 = Some (AppendLine 4 ''hello'')"
  by (simp add: world_hello_def world0_def operation_at_def cell_at_def c_str_def)

lemma utf8_hello: "utf8 ''hello''"
  by (simp add: byte_def)

lemma hello_run:
  "collab_remoteapply 1 (world_hello\<lparr>delivering := d\<rparr>) =
     Inr (world_hello\<lparr>delivering := d, outbox := (if d then [msg_hello] else []),
            released := [msg_hello]\<rparr>)"
proof -
  let ?w = "world_hello\<lparr>delivering := d\<rparr>"
  have c: "cell_at ?w 1 = Some (Edit \<lparr>file_buf = 0, body = Append_line 4 (Block 2)\<rparr>)"
    by (simp add: world_hello_def world0_def cell_at_def)
  have t: "text_read ?w (body \<lparr>file_buf = 0, body = Append_line 4 (Block 2)\<rparr>) =
      Some ''hello''"
    by (simp add: world_hello_def world0_def text_read_def cell_at_def c_str_def)
  have m: "wire_of (body \<lparr>file_buf = 0, body = Append_line 4 (Block 2)\<rparr>) ''hello'' =
      msg_hello"
    using utf8_hello by (simp add: msg_hello_def VarFromUtf8_def)
  have o: "outbox ?w = []" "released ?w = []" "delivering ?w = d"
    by (simp_all add: world_hello_def world0_def)
  show ?thesis
    unfolding remoteapply_eq [OF c t] m
    by (simp add: PostMessage_def o) (simp add: world_hello_def world0_def)
qed

lemma decode_wire_of:
  assumes "operation_of w u = Some op" and "utf8 (text_in op)"
  shows "\<exists>w3 p. msgloop_body \<lparr>as_var = wire_of u (text_in op)\<rparr> w2 = Inr w3 \<and>
           collab_queue w3 = collab_queue w2 @ [p] \<and> operation_at w3 p = Some op \<and>
           (\<exists>e'. cell_at w3 p = Some (Edit e') \<and> file_buf e' = curbuf w2)"
proof (cases u)
  case (Append_line l t)
  with assms have s: "c_str w t = Some (text_in op)" "op = AppendLine (sint l) (text_in op)"
    by auto
  then have "NUL \<notin> set (text_in op)" using c_str_no_NUL by blast
  then show ?thesis
    using Append_line s(2) assms(2)
    by (simp add: body_append_line type_defs key_defs operation_at_def cell_at_def nth_append
        c_str_def padded_no_NUL takeWhile_terminated VarFromUtf8_def)
next
  case (Insert_text l i t)
  with assms have s: "c_str w t = Some (text_in op)"
    "op = InsertText (sint l) (sint i) (text_in op)"
    by auto
  then have "NUL \<notin> set (text_in op)" using c_str_no_NUL by blast
  then show ?thesis
    using Insert_text s(2) assms(2)
    by (simp add: body_insert_text type_defs key_defs operation_at_def cell_at_def nth_append
        c_str_def padded_no_NUL takeWhile_terminated VarFromUtf8_def)
next
  case (Remove_line l)
  with assms show ?thesis
    by (auto simp: body_remove_line type_defs key_defs operation_at_def cell_at_def nth_append)
next
  case (Delete_text l i n)
  with assms show ?thesis
    by (auto simp: body_delete_text type_defs key_defs operation_at_def cell_at_def nth_append)
next
  case (Replace_line l t)
  with assms have s: "c_str w t = Some (text_in op)" "op = ReplaceLine (sint l) (text_in op)"
    by auto
  then have "NUL \<notin> set (text_in op)" using c_str_no_NUL by blast
  then show ?thesis
    using Replace_line s(2) assms(2)
    by (simp add: body_replace_line type_defs key_defs operation_at_def cell_at_def nth_append
        c_str_def padded_no_NUL takeWhile_terminated VarFromUtf8_def)
qed

section \<open>Frames\<close>

lemma body_shape:
  "\<exists>w' ext q. msgloop_body ev w = Inr w' \<and> heap w' = heap w @ ext \<and>
     collab_queue w' = collab_queue w @ q \<and> length q \<le> 1"
proof -
  consider
    (skip) "var_type (as_var ev) \<noteq> PP_VARTYPE_DICTIONARY \<or> \<not> dict_HasKey (as_var ev) type_key"
  | (unknown) "var_type (as_var ev) = PP_VARTYPE_DICTIONARY" "dict_HasKey (as_var ev) type_key"
      "dict_Get (as_var ev) type_key \<notin> set known_types"
  | (append) "dict_Get (as_var ev) type_key = type_append_line"
  | (insert) "dict_Get (as_var ev) type_key = type_insert_text"
  | (remove) "dict_Get (as_var ev) type_key = type_remove_line"
  | (delete) "dict_Get (as_var ev) type_key = type_delete_text"
  | (replace) "dict_Get (as_var ev) type_key = type_replace_line"
    by (auto simp: known_types_def)
  then show ?thesis
  proof cases
    case skip
    show ?thesis by (simp add: body_skip_world [OF skip])
  next
    case unknown
    show ?thesis by (simp add: body_unknown [OF unknown])
  next
    case append
    show ?thesis by (simp add: body_append_line [OF append])
  next
    case insert
    show ?thesis by (simp add: body_insert_text [OF insert])
  next
    case remove
    show ?thesis by (simp add: body_remove_line [OF remove])
  next
    case delete
    show ?thesis by (simp add: body_delete_text [OF delete])
  next
    case replace
    show ?thesis by (simp add: body_replace_line [OF replace])
  qed
qed

lemma msgloop_shape:
  "\<exists>w' ext. js_msgloop events w = Inr w' \<and> heap w' = heap w @ ext"
proof (induction events arbitrary: w)
  case Nil
  show ?case by simp
next
  case (Cons ev events)
  obtain w1 ext1 where w1: "msgloop_body ev w = Inr w1" "heap w1 = heap w @ ext1"
    using body_shape by blast
  obtain w2 ext2 where w2: "js_msgloop events w1 = Inr w2" "heap w2 = heap w1 @ ext2"
    using Cons.IH by blast
  with w1 show ?case by (simp add: and_then_def)
qed

lemma cell_at_old:
  "heap w' = heap w @ ext \<Longrightarrow> p \<le> length (heap w) \<Longrightarrow> cell_at w' p = cell_at w p"
  by (auto simp: cell_at_def nth_append)

lemma c_str_old:
  "heap w' = heap w @ ext \<Longrightarrow> p \<le> length (heap w) \<Longrightarrow>
   c_str w' (Block p) = c_str w (Block p)"
  by (simp add: c_str_def cell_at_old)

lemma remoteapply_frame:
  assumes "collab_remoteapply edit w = Inr w'"
  shows "heap w' = heap w \<and> curbuf w' = curbuf w \<and> collab_queue w' = collab_queue w \<and>
         acquired w' = acquired w"
proof -
  from assms obtain e dict where "cell_at w edit = Some (Edit e)"
    and "w' = Release dict (PostMessage dict w)"
    by (auto simp: collab_remoteapply_def and_then_def
        split: option.splits cell.splits sum.splits if_splits)
  then show ?thesis by (simp add: Release_def PostMessage_def)
qed

lemma bytes_at_same:
  "heap w' = heap w \<Longrightarrow> acquired w' = acquired w \<Longrightarrow> bytes_at w' p = bytes_at w p"
  by (cases p) (simp_all add: cell_at_def alive_def)

lemma operation_at_same:
  assumes "heap w' = heap w" and "acquired w' = acquired w"
  shows "operation_at w' p = operation_at w p"
proof -
  have c: "cell_at w' q = cell_at w q" for q using assms by (simp add: cell_at_def)
  have "c_str w' q = c_str w q" for q by (simp add: c_str_def bytes_at_same [OF assms])
  then have "operation_of w' u = operation_of w u" for u by (cases u) simp_all
  with c show ?thesis by (simp add: operation_at_def split: option.splits cell.splits)
qed

lemma remoteapply_delivering:
  "caller_view (collab_remoteapply edit (w\<lparr>delivering := d\<rparr>)) =
   caller_view (collab_remoteapply edit w)"
proof -
  have c: "cell_at (w\<lparr>delivering := d\<rparr>) p = cell_at w p" for p
    by (simp add: cell_at_def)
  have "bytes_at (w\<lparr>delivering := d\<rparr>) p = bytes_at w p" for p
    by (rule bytes_at_same) simp_all
  then have "UTF8_TO_VAR p (w\<lparr>delivering := d\<rparr>) = UTF8_TO_VAR p w" for p
    by (simp add: UTF8_TO_VAR_def)
  then have "edit_dict u (w\<lparr>delivering := d\<rparr>) = edit_dict u w" for u
    by (cases u) simp_all
  with c show ?thesis
    by (simp add: caller_view_def collab_remoteapply_def and_then_def program_state_def
        Release_def PostMessage_def split: option.splits cell.splits sum.splits)
qed

section \<open>Interleavings keep the order\<close>

lemma turn_in_flight: "in_flight (turn t s) = in_flight s"
  by (cases t)
    (auto simp: in_flight_def collab_enqueue_def collab_dequeue_def split: list.splits)

lemma interleave_in_flight: "in_flight (interleave sched s) = in_flight s"
  by (induction sched arbitrary: s) (simp_all add: turn_in_flight)

lemma interleave_append: "interleave (a @ b) s = interleave b (interleave a s)"
  by (induction a arbitrary: s) simp_all

lemma producer_finishes:
  "length (to_push s) \<le> n \<Longrightarrow> to_push (interleave (replicate n Producer) s) = []"
proof (induction n arbitrary: s)
  case 0
  then show ?case by simp
next
  case (Suc n)
  have "length (to_push (turn Producer s)) \<le> n"
    using Suc.prems by (cases "to_push s") simp_all
  then show ?case using Suc.IH by simp
qed

lemma consumer_keeps_to_push: "to_push (interleave (replicate n Consumer) s) = to_push s"
  by (induction n arbitrary: s) (simp_all add: collab_dequeue_def split: list.splits)

lemma consumer_drains:
  "length (collab_queue (shared s)) \<le> n \<Longrightarrow>
   collab_queue (shared (interleave (replicate n Consumer) s)) = []"
proof (induction n arbitrary: s)
  case 0
  then show ?case by simp
next
  case (Suc n)
  have "length (collab_queue (shared (turn Consumer s))) \<le> n"
    using Suc.prems by (cases "collab_queue (shared s)") (simp_all add: collab_dequeue_def)
  then show ?case using Suc.IH by simp
qed


section \<open>The claims\<close>

text \<open>
  Claim C1, as the code has it. Encoding an operation whose text is valid UTF-8 and decoding
  the message gives the operation back: when the edit at \<open>edit\<close> stands for the operation
  \<open>op\<close> (any of the five variants, any integers, any UTF-8 text),
  \<^verbatim>\<open>collab_remoteapply\<close> posts one message, and a turn of the loop on that message, in
  whatever world it arrives, queues one new edit that stands for the same \<open>op\<close>: same
  variant, same line, index and length, same text. The buffer reference is not on the wire;
  the decoded edit refers to the receiver's \<^verbatim>\<open>curbuf\<close>.
\<close>

theorem roundtrip:
  assumes "operation_at w edit = Some op" and "utf8 (text_in op)" and "delivering w"
  shows "\<exists>w1 msg. collab_remoteapply edit w = Inr w1 \<and> outbox w1 = outbox w @ [msg] \<and>
           (\<forall>w2. \<exists>w3 p. msgloop_body \<lparr>as_var = msg\<rparr> w2 = Inr w3 \<and>
              collab_queue w3 = collab_queue w2 @ [p] \<and> operation_at w3 p = Some op \<and>
              (\<exists>e'. cell_at w3 p = Some (Edit e') \<and> file_buf e' = curbuf w2))"
proof -
  from assms(1) obtain e where e: "cell_at w edit = Some (Edit e)"
    "operation_of w (body e) = Some op"
    using operation_atD by blast
  then have s: "text_read w (body e) = Some (text_in op)"
    using operation_of_text_read by blast
  from e s assms(3) have "collab_remoteapply edit w =
      Inr (w\<lparr>outbox := outbox w @ [wire_of (body e) (text_in op)],
             released := released w @ [wire_of (body e) (text_in op)]\<rparr>)"
    by (simp add: remoteapply_eq PostMessage_def)
  moreover have "\<forall>w2. \<exists>w3 p.
      msgloop_body \<lparr>as_var = wire_of (body e) (text_in op)\<rparr> w2 = Inr w3 \<and>
      collab_queue w3 = collab_queue w2 @ [p] \<and> operation_at w3 p = Some op \<and>
      (\<exists>e'. cell_at w3 p = Some (Edit e') \<and> file_buf e' = curbuf w2)"
    using decode_wire_of [OF e(2) assms(2)] by blast
  ultimately show ?thesis by simp
qed

text \<open>The specification's first example, \<open>AppendLine{line=4, text="hello"}\<close>.\<close>

theorem roundtrip_witness:
  "operation_at world_hello 1 = Some (AppendLine 4 ''hello'') \<and>
   utf8 (text_in (AppendLine 4 ''hello'')) \<and> delivering world_hello \<and>
   (\<exists>w1 msg. collab_remoteapply 1 world_hello = Inr w1 \<and>
      outbox w1 = outbox world_hello @ [msg] \<and>
      (\<forall>w2. \<exists>w3 p. msgloop_body \<lparr>as_var = msg\<rparr> w2 = Inr w3 \<and>
         collab_queue w3 = collab_queue w2 @ [p] \<and>
         operation_at w3 p = Some (AppendLine 4 ''hello'') \<and>
         (\<exists>e'. cell_at w3 p = Some (Edit e') \<and> file_buf e' = curbuf w2)))"
proof -
  have u: "utf8 (text_in (AppendLine 4 ''hello''))" using utf8_hello by simp
  have d: "delivering world_hello" by (simp add: world_hello_def world0_def)
  show ?thesis
    by (rule conjI [OF hello_at conjI [OF u conjI [OF d roundtrip [OF hello_at u d]]]])
qed

text \<open>
  Against claim C1 as stated: the line \<open>caf\<close> with the Latin-1 byte \<open>0xE9\<close> is an operation
  in memory; its bytes are not UTF-8, the bridge makes a null var of them, and the message
  decodes to the same line with an empty text.
\<close>

theorem roundtrip_counterexample:
  "operation_at world_cafe 1 = Some (AppendLine 4 (''caf'' @ [CHR 0xE9])) \<and>
   map_sum id outbox (collab_remoteapply 1 world_cafe) = Inr [msg_cafe] \<and>
   queued (msgloop_body \<lparr>as_var = msg_cafe\<rparr> world0) = Inr [Some (AppendLine 4 [])]"
proof -
  have a: "operation_at world_cafe 1 = Some (AppendLine 4 (''caf'' @ [CHR 0xE9]))"
    by (simp add: world_cafe_def world0_def operation_at_def cell_at_def c_str_def)
  have c: "cell_at world_cafe 1 = Some (Edit \<lparr>file_buf = 0, body = Append_line 4 (Block 2)\<rparr>)"
    by (simp add: world_cafe_def world0_def cell_at_def)
  have t: "text_read world_cafe (body \<lparr>file_buf = 0, body = Append_line 4 (Block 2)\<rparr>) =
      Some (''caf'' @ [CHR 0xE9])"
    by (simp add: world_cafe_def world0_def text_read_def cell_at_def c_str_def)
  have m: "wire_of (body \<lparr>file_buf = 0, body = Append_line 4 (Block 2)\<rparr>)
      (''caf'' @ [CHR 0xE9]) = msg_cafe"
    by (simp add: msg_cafe_def VarFromUtf8_def byte_def)
  have b: "map_sum id outbox (collab_remoteapply 1 world_cafe) = Inr [msg_cafe]"
    unfolding remoteapply_eq [OF c t] m
    by (simp add: PostMessage_def world_cafe_def world0_def)
  have "dict_Get (as_var \<lparr>as_var = msg_cafe\<rparr>) type_key = type_append_line"
    by (simp add: msg_cafe_def type_defs key_defs)
  then have d: "queued (msgloop_body \<lparr>as_var = msg_cafe\<rparr> world0) =
      Inr [Some (AppendLine 4 [])]"
    by (simp add: body_append_line queued_def operation_at_def cell_at_def c_str_def world0_def
        msg_cafe_def key_defs)
  from a b d show ?thesis by simp
qed

text \<open>
  Claim C2, as the code has it. The loop takes line, index and length from the message
  without looking at their sign: for a message of a known kind one edit of that kind is
  queued, and its integers are the \<^verbatim>\<open>as_int\<close> of the entries under the keys of the kind,
  which for an int32 var is its number, negative or not. No outcome rejects a field.
\<close>

theorem integers_unchecked:
  assumes "dict_Get (as_var ev) type_key = String_var (wire_tag k)"
  shows "\<exists>w' p e. msgloop_body ev w = Inr w' \<and> collab_queue w' = collab_queue w @ [p] \<and>
           cell_at w' p = Some (Edit e) \<and> collab_type (body e) = k \<and>
           ints_of (body e) = map (\<lambda>key. as_int (raw_bits w) (dict_Get (as_var ev) key)) (int_keys k)"
proof (cases k)
  case COLLAB_APPEND_LINE
  with assms have "dict_Get (as_var ev) type_key = type_append_line"
    by (simp add: type_defs)
  with COLLAB_APPEND_LINE show ?thesis
    by (simp add: body_append_line cell_at_def nth_append)
next
  case COLLAB_INSERT_TEXT
  with assms have "dict_Get (as_var ev) type_key = type_insert_text"
    by (simp add: type_defs)
  with COLLAB_INSERT_TEXT show ?thesis
    by (simp add: body_insert_text cell_at_def nth_append)
next
  case COLLAB_REMOVE_LINE
  with assms have "dict_Get (as_var ev) type_key = type_remove_line"
    by (simp add: type_defs)
  with COLLAB_REMOVE_LINE show ?thesis
    by (simp add: body_remove_line cell_at_def nth_append)
next
  case COLLAB_DELETE_TEXT
  with assms have "dict_Get (as_var ev) type_key = type_delete_text"
    by (simp add: type_defs)
  with COLLAB_DELETE_TEXT show ?thesis
    by (simp add: body_delete_text cell_at_def nth_append)
next
  case COLLAB_REPLACE_LINE
  with assms have "dict_Get (as_var ev) type_key = type_replace_line"
    by (simp add: type_defs)
  with COLLAB_REPLACE_LINE show ?thesis
    by (simp add: body_replace_line cell_at_def nth_append)
qed

text \<open>At the removal of line \<open>-1\<close>.\<close>

theorem integers_unchecked_witness:
  "dict_Get (as_var \<lparr>as_var = msg_negative\<rparr>) type_key = String_var (wire_tag COLLAB_REMOVE_LINE) \<and>
   (\<exists>w' p e. msgloop_body \<lparr>as_var = msg_negative\<rparr> world0 = Inr w' \<and>
      collab_queue w' = collab_queue world0 @ [p] \<and>
      cell_at w' p = Some (Edit e) \<and> collab_type (body e) = COLLAB_REMOVE_LINE \<and>
      ints_of (body e) = [- 1])"
proof -
  have h: "dict_Get (as_var \<lparr>as_var = msg_negative\<rparr>) type_key =
      String_var (wire_tag COLLAB_REMOVE_LINE)"
    by (simp add: msg_negative_def key_defs)
  from h integers_unchecked [OF h, of world0] show ?thesis
    by (simp add: msg_negative_def key_defs)
qed

text \<open>
  Against claim C2 as stated: the removal of line \<open>-1\<close> is decoded and queued with its
  negative line.
\<close>

theorem negative_line_counterexample:
  "queued (msgloop_body \<lparr>as_var = msg_negative\<rparr> world0) = Inr [Some (RemoveLine (- 1))]"
proof -
  have "dict_Get (as_var \<lparr>as_var = msg_negative\<rparr>) type_key = type_remove_line"
    by (simp add: msg_negative_def type_defs key_defs)
  then show ?thesis
    by (simp add: body_remove_line queued_def operation_at_def cell_at_def world0_def
        msg_negative_def key_defs)
qed

text \<open>
  Claim C3, as the code has it. The loop never checks that an entry is present or of the
  right type: for a message whose discriminator is that of variant \<open>k\<close>, whatever else it
  holds, one edit is queued, it stands for an operation of variant \<open>k\<close>, and its text, when
  the variant has one, is the \<^verbatim>\<open>text\<close> entry read as a C string: empty when the entry is
  absent or not a string. No outcome reports a missing field.
\<close>

theorem fields_unchecked:
  assumes "dict_Get (as_var ev) type_key = String_var (wire_tag k)"
  shows "\<exists>w' p e op. msgloop_body ev w = Inr w' \<and> collab_queue w' = collab_queue w @ [p] \<and>
           cell_at w' p = Some (Edit e) \<and> operation_of w' (body e) = Some op \<and> kind op = k \<and>
           text_read w' (body e) =
             Some (if has_text k then wire_text (dict_Get (as_var ev) text_key) else [])"
proof (cases k)
  case COLLAB_APPEND_LINE
  with assms have "dict_Get (as_var ev) type_key = type_append_line"
    by (simp add: type_defs)
  with COLLAB_APPEND_LINE show ?thesis
    by (simp add: body_append_line cell_at_def nth_append c_str_fresh text_read_def)
next
  case COLLAB_INSERT_TEXT
  with assms have "dict_Get (as_var ev) type_key = type_insert_text"
    by (simp add: type_defs)
  with COLLAB_INSERT_TEXT show ?thesis
    by (simp add: body_insert_text cell_at_def nth_append c_str_fresh text_read_def)
next
  case COLLAB_REMOVE_LINE
  with assms have "dict_Get (as_var ev) type_key = type_remove_line"
    by (simp add: type_defs)
  with COLLAB_REMOVE_LINE show ?thesis
    by (simp add: body_remove_line cell_at_def nth_append text_read_def)
next
  case COLLAB_DELETE_TEXT
  with assms have "dict_Get (as_var ev) type_key = type_delete_text"
    by (simp add: type_defs)
  with COLLAB_DELETE_TEXT show ?thesis
    by (simp add: body_delete_text cell_at_def nth_append text_read_def)
next
  case COLLAB_REPLACE_LINE
  with assms have "dict_Get (as_var ev) type_key = type_replace_line"
    by (simp add: type_defs)
  with COLLAB_REPLACE_LINE show ?thesis
    by (simp add: body_replace_line cell_at_def nth_append c_str_fresh text_read_def)
qed

text \<open>At the text insertion without an index.\<close>

theorem fields_unchecked_witness:
  "dict_Get (as_var \<lparr>as_var = msg_no_index\<rparr>) type_key = String_var (wire_tag COLLAB_INSERT_TEXT) \<and>
   (\<exists>w' p e op. msgloop_body \<lparr>as_var = msg_no_index\<rparr> world0 = Inr w' \<and>
      collab_queue w' = collab_queue world0 @ [p] \<and>
      cell_at w' p = Some (Edit e) \<and> operation_of w' (body e) = Some op \<and>
      kind op = COLLAB_INSERT_TEXT \<and> text_read w' (body e) = Some ''x'')"
proof -
  have h: "dict_Get (as_var \<lparr>as_var = msg_no_index\<rparr>) type_key =
      String_var (wire_tag COLLAB_INSERT_TEXT)"
    by (simp add: msg_no_index_def key_defs)
  have t: "wire_text (dict_Get (as_var \<lparr>as_var = msg_no_index\<rparr>) text_key) = ''x''"
    by (simp add: msg_no_index_def key_defs)
  from h t fields_unchecked [OF h, of world0] show ?thesis by simp
qed

text \<open>
  Against claim C3 as stated: the text insertion without an index is decoded and queued;
  its index is what \<^verbatim>\<open>as_int\<close> reads in the undefined var, zero in this world.
\<close>

theorem missing_index_counterexample:
  "\<not> dict_HasKey msg_no_index index_key \<and>
   queued (msgloop_body \<lparr>as_var = msg_no_index\<rparr> world0) = Inr [Some (InsertText 2 0 ''x'')]"
proof -
  have "\<not> dict_HasKey msg_no_index index_key"
    by (simp add: msg_no_index_def key_defs)
  moreover
  have "dict_Get (as_var \<lparr>as_var = msg_no_index\<rparr>) type_key = type_insert_text"
    by (simp add: msg_no_index_def type_defs key_defs)
  then have "queued (msgloop_body \<lparr>as_var = msg_no_index\<rparr> world0) =
      Inr [Some (InsertText 2 0 ''x'')]"
    by (simp add: body_insert_text queued_def operation_at_def cell_at_def c_str_def world0_def
        msg_no_index_def key_defs padded_def)
  ultimately show ?thesis by simp
qed

text \<open>
  Claim C4. No message stops the loop. A turn of the loop on any event, in any world,
  ends without a fault, having queued one edit or none; and the loop run on any sequence
  of events handles all of them and is waiting for the next.
\<close>

theorem msgloop_never_stops:
  "(\<exists>w'. msgloop_body ev w = Inr w' \<and>
      (collab_queue w' = collab_queue w \<or> (\<exists>p. collab_queue w' = collab_queue w @ [p]))) \<and>
   (\<exists>w'. js_msgloop events w = Inr w')"
proof
  obtain w' q where w': "msgloop_body ev w = Inr w'"
    "collab_queue w' = collab_queue w @ q" "length q \<le> 1"
    using body_shape [of ev w] by blast
  from w'(3) have "q = [] \<or> (\<exists>p. q = [p])"
    by (cases q) auto
  with w'(1,2) show "\<exists>w'. msgloop_body ev w = Inr w' \<and>
      (collab_queue w' = collab_queue w \<or> (\<exists>p. collab_queue w' = collab_queue w @ [p]))"
    by auto
  show "\<exists>w'. js_msgloop events w = Inr w'"
    using msgloop_shape by blast
qed

text \<open>At a null var, an unknown kind and a message with a missing field.\<close>

theorem msgloop_never_stops_witness:
  "(\<exists>w'. msgloop_body \<lparr>as_var = Null_var\<rparr> world0 = Inr w' \<and>
      (collab_queue w' = collab_queue world0 \<or>
       (\<exists>p. collab_queue w' = collab_queue world0 @ [p]))) \<and>
   (\<exists>w'. js_msgloop [\<lparr>as_var = Null_var\<rparr>, \<lparr>as_var = msg_frobnicate\<rparr>,
       \<lparr>as_var = msg_no_index\<rparr>] world0 = Inr w')"
  using msgloop_never_stops [of "\<lparr>as_var = Null_var\<rparr>" world0
      "[\<lparr>as_var = Null_var\<rparr>, \<lparr>as_var = msg_frobnicate\<rparr>, \<lparr>as_var = msg_no_index\<rparr>]"]
  by simp

text \<open>
  Claim C5. A message that is not a dictionary, or has no \<^verbatim>\<open>collabedit_type\<close>, or whose
  \<^verbatim>\<open>collabedit_type\<close> is none of the five known strings (a string such as "frobnicate",
  or no string at all) leaves the queue as it was, and the loop goes on with the next
  event.
\<close>

theorem unrecognised_not_queued:
  assumes "var_type (as_var ev) \<noteq> PP_VARTYPE_DICTIONARY \<or>
           \<not> dict_HasKey (as_var ev) type_key \<or>
           dict_Get (as_var ev) type_key \<notin> set known_types"
  shows "\<exists>w'. msgloop_body ev w = Inr w' \<and> collab_queue w' = collab_queue w \<and>
           js_msgloop (ev # events) w = js_msgloop events w'"
proof (cases "var_type (as_var ev) \<noteq> PP_VARTYPE_DICTIONARY \<or>
    \<not> dict_HasKey (as_var ev) type_key")
  case True
  show ?thesis by (simp add: body_skip_world [OF True] and_then_def)
next
  case False
  with assms have "var_type (as_var ev) = PP_VARTYPE_DICTIONARY"
    "dict_HasKey (as_var ev) type_key" "dict_Get (as_var ev) type_key \<notin> set known_types"
    by auto
  then show ?thesis by (simp add: body_unknown and_then_def)
qed

text \<open>At the message of kind "frobnicate".\<close>

theorem unrecognised_not_queued_witness:
  "(var_type (as_var \<lparr>as_var = msg_frobnicate\<rparr>) = PP_VARTYPE_DICTIONARY \<and>
    dict_HasKey (as_var \<lparr>as_var = msg_frobnicate\<rparr>) type_key \<and>
    dict_Get (as_var \<lparr>as_var = msg_frobnicate\<rparr>) type_key \<notin> set known_types) \<and>
   (\<exists>w'. msgloop_body \<lparr>as_var = msg_frobnicate\<rparr> world0 = Inr w' \<and>
      collab_queue w' = collab_queue world0 \<and>
      js_msgloop [\<lparr>as_var = msg_frobnicate\<rparr>, \<lparr>as_var = msg_hello\<rparr>] world0 =
        js_msgloop [\<lparr>as_var = msg_hello\<rparr>] w')"
proof -
  have h: "var_type (as_var \<lparr>as_var = msg_frobnicate\<rparr>) = PP_VARTYPE_DICTIONARY \<and>
      dict_HasKey (as_var \<lparr>as_var = msg_frobnicate\<rparr>) type_key \<and>
      dict_Get (as_var \<lparr>as_var = msg_frobnicate\<rparr>) type_key \<notin> set known_types"
    by (simp add: msg_frobnicate_def known_types_def type_defs key_defs)
  then have "var_type (as_var \<lparr>as_var = msg_frobnicate\<rparr>) \<noteq> PP_VARTYPE_DICTIONARY \<or>
      \<not> dict_HasKey (as_var \<lparr>as_var = msg_frobnicate\<rparr>) type_key \<or>
      dict_Get (as_var \<lparr>as_var = msg_frobnicate\<rparr>) type_key \<notin> set known_types"
    by blast
  from h unrecognised_not_queued [OF this, of world0 "[\<lparr>as_var = msg_hello\<rparr>]"]
  show ?thesis by blast
qed

text \<open>
  Claim C6. For an edit that stands for an operation, \<^verbatim>\<open>collab_remoteapply\<close> posts a
  dictionary whose keys are exactly those of the specification's table for the variant, in
  that order and once each, and whose \<^verbatim>\<open>collabedit_type\<close> is the string var of the
  variant's discriminator.
\<close>

theorem encode_keys:
  assumes "operation_at w edit = Some op" and "delivering w"
  shows "\<exists>w' kvs. collab_remoteapply edit w = Inr w' \<and>
           outbox w' = outbox w @ [Dictionary_var kvs] \<and>
           map fst kvs = wire_keys (kind op) \<and>
           map_of kvs ''collabedit_type'' = Some (String_var (wire_tag (kind op)))"
proof -
  from assms(1) obtain e where e: "cell_at w edit = Some (Edit e)"
    "operation_of w (body e) = Some op"
    using operation_atD by blast
  then obtain s where s: "text_read w (body e) = Some s"
    using operation_of_text_read by blast
  obtain kvs where kvs: "wire_of (body e) s = Dictionary_var kvs"
    "map fst kvs = wire_keys (collab_type (body e))"
    "map_of kvs ''collabedit_type'' = Some (String_var (wire_tag (collab_type (body e))))"
    using wire_of_keys by blast
  from e s assms(2) kvs have "collab_remoteapply edit w =
      Inr (w\<lparr>outbox := outbox w @ [Dictionary_var kvs],
             released := released w @ [Dictionary_var kvs]\<rparr>)"
    by (simp add: remoteapply_eq PostMessage_def)
  with kvs kind_operation_of [OF e(2)] show ?thesis by simp
qed

text \<open>At \<open>AppendLine{line=4, text="hello"}\<close>.\<close>

theorem encode_keys_witness:
  "operation_at world_hello 1 = Some (AppendLine 4 ''hello'') \<and> delivering world_hello \<and>
   (\<exists>w' kvs. collab_remoteapply 1 world_hello = Inr w' \<and>
      outbox w' = outbox world_hello @ [Dictionary_var kvs] \<and>
      map fst kvs = [''collabedit_type'', ''line'', ''text''] \<and>
      map_of kvs ''collabedit_type'' = Some (String_var ''append_line''))"
proof -
  have d: "delivering world_hello" by (simp add: world_hello_def world0_def)
  from hello_at d encode_keys [OF hello_at d] show ?thesis by simp
qed

text \<open>
  Claim C7, as the code has it. The text of a decoded edit is a buffer of its own. For every
  message of a kind with a text, the queued edit's text pointer is a block of \<^verbatim>\<open>malloc\<close>
  that did not exist before the turn, not a pointer into the storage of a var; it holds the
  message's \<^verbatim>\<open>text\<close> read as a C string: all bytes of a string without a NUL byte, those
  before the first NUL otherwise, none for an entry that is no string. The event has been
  given back to the bridge by then and the program holds what it held before the turn; and
  whatever events the loop handles later, the block reads the same.
\<close>

theorem text_is_own_copy:
  assumes "dict_Get (as_var ev) type_key \<in> {type_append_line, type_insert_text, type_replace_line}"
  shows "\<exists>w' p e t. msgloop_body ev w = Inr w' \<and> collab_queue w' = collab_queue w @ [p] \<and>
           cell_at w' p = Some (Edit e) \<and> text_of (body e) = Some (Block t) \<and>
           cell_at w t = None \<and>
           c_str w' (Block t) = Some (wire_text (dict_Get (as_var ev) text_key)) \<and>
           as_var ev \<in> set (released w') \<and> acquired w' = acquired w \<and>
           (\<forall>events. \<exists>w''. js_msgloop events w' = Inr w'' \<and>
              c_str w'' (Block t) = c_str w' (Block t))"
proof -
  let ?p = "Suc (length (heap w))"
  let ?t = "Suc ?p"
  have "\<exists>u. text_of u = Some (Block ?t) \<and> msgloop_body ev w =
      Inr (w\<lparr>heap := heap w @ [Some (Edit \<lparr>file_buf = curbuf w, body = u\<rparr>),
                  Some (Chars (cstr_of (dict_Get (as_var ev) text_key)))],
             collab_queue := collab_queue w @ [?p],
             released := released w @ [as_var ev]\<rparr>)"
  proof -
    from assms consider
      (append) "dict_Get (as_var ev) type_key = type_append_line"
    | (insert) "dict_Get (as_var ev) type_key = type_insert_text"
    | (replace) "dict_Get (as_var ev) type_key = type_replace_line"
      by auto
    then show ?thesis
    proof cases
      case append
      show ?thesis
        unfolding body_append_line [OF append]
        by (rule exI [where x = "Append_line
              (as_int (raw_bits w) (dict_Get (as_var ev) line_key)) (Block ?t)"]) simp
    next
      case insert
      show ?thesis
        unfolding body_insert_text [OF insert]
        by (rule exI [where x = "Insert_text
              (as_int (raw_bits w) (dict_Get (as_var ev) line_key))
              (as_int (raw_bits w) (dict_Get (as_var ev) index_key)) (Block ?t)"]) simp
    next
      case replace
      show ?thesis
        unfolding body_replace_line [OF replace]
        by (rule exI [where x = "Replace_line
              (as_int (raw_bits w) (dict_Get (as_var ev) line_key)) (Block ?t)"]) simp
    qed
  qed
  then obtain u where u: "text_of u = Some (Block ?t)"
    and run: "msgloop_body ev w =
      Inr (w\<lparr>heap := heap w @ [Some (Edit \<lparr>file_buf = curbuf w, body = u\<rparr>),
                  Some (Chars (cstr_of (dict_Get (as_var ev) text_key)))],
             collab_queue := collab_queue w @ [?p],
             released := released w @ [as_var ev]\<rparr>)" (is "_ = Inr ?w'")
    by blast
  have later: "\<exists>w''. js_msgloop events ?w' = Inr w'' \<and>
      c_str w'' (Block ?t) = c_str ?w' (Block ?t)" for events
  proof -
    obtain w'' ext where "js_msgloop events ?w' = Inr w''" "heap w'' = heap ?w' @ ext"
      using msgloop_shape by blast
    then show ?thesis using c_str_old [of w'' ?w' ext ?t] by simp
  qed
  have "c_str ?w' (Block ?t) = Some (wire_text (dict_Get (as_var ev) text_key))"
    using c_str_fresh [of ?w' "heap w" _ "dict_Get (as_var ev) text_key"] by simp
  moreover have "cell_at w ?t = None" by (simp add: cell_at_def)
  moreover have "cell_at ?w' ?p = Some (Edit \<lparr>file_buf = curbuf w, body = u\<rparr>)"
    by (simp add: cell_at_def nth_append)
  ultimately show ?thesis using run u later by auto
qed

text \<open>
  At the message for \<open>AppendLine{line=4, text="hello"}\<close>: after the turn the edit reads
  \<open>hello\<close>, and the bytes of the message's own text can no longer be read.
\<close>

theorem text_is_own_copy_witness:
  "dict_Get (as_var \<lparr>as_var = msg_hello\<rparr>) type_key
     \<in> {type_append_line, type_insert_text, type_replace_line} \<and>
   (\<exists>w' p e t. msgloop_body \<lparr>as_var = msg_hello\<rparr> world_hello = Inr w' \<and>
      collab_queue w' = collab_queue world_hello @ [p] \<and>
      cell_at w' p = Some (Edit e) \<and> text_of (body e) = Some (Block t) \<and>
      cell_at world_hello t = None \<and>
      c_str w' (Block t) = Some ''hello'' \<and>
      as_var \<lparr>as_var = msg_hello\<rparr> \<in> set (released w') \<and>
      bytes_at w' (Var_bytes (String_var ''hello'')) = Inl Dangling_pointer \<and>
      (\<forall>events. \<exists>w''. js_msgloop events w' = Inr w'' \<and>
         c_str w'' (Block t) = c_str w' (Block t)))"
proof -
  have h1: "dict_Get (as_var \<lparr>as_var = msg_hello\<rparr>) type_key
      \<in> {type_append_line, type_insert_text, type_replace_line}"
    by (simp add: msg_hello_def type_defs key_defs)
  have h2: "wire_text (dict_Get (as_var \<lparr>as_var = msg_hello\<rparr>) text_key) = ''hello''"
    by (simp add: msg_hello_def key_defs)
  have gone: "bytes_at w' (Var_bytes (String_var ''hello'')) = Inl Dangling_pointer"
    if "acquired w' = acquired world_hello" for w'
    using that
    by (simp add: alive_def constants_def type_defs key_defs world_hello_def world0_def)
  from text_is_own_copy [OF h1, of world_hello] obtain w' p e t where
    "msgloop_body \<lparr>as_var = msg_hello\<rparr> world_hello = Inr w'"
    "collab_queue w' = collab_queue world_hello @ [p]"
    "cell_at w' p = Some (Edit e)" "text_of (body e) = Some (Block t)"
    "cell_at world_hello t = None"
    "c_str w' (Block t) = Some (wire_text (dict_Get (as_var \<lparr>as_var = msg_hello\<rparr>) text_key))"
    "as_var \<lparr>as_var = msg_hello\<rparr> \<in> set (released w')" "acquired w' = acquired world_hello"
    "\<forall>events. \<exists>w''. js_msgloop events w' = Inr w'' \<and> c_str w'' (Block t) = c_str w' (Block t)"
    by blast
  with h2 gone [of w'] have "msgloop_body \<lparr>as_var = msg_hello\<rparr> world_hello = Inr w' \<and>
      collab_queue w' = collab_queue world_hello @ [p] \<and>
      cell_at w' p = Some (Edit e) \<and> text_of (body e) = Some (Block t) \<and>
      cell_at world_hello t = None \<and>
      c_str w' (Block t) = Some ''hello'' \<and>
      as_var \<lparr>as_var = msg_hello\<rparr> \<in> set (released w') \<and>
      bytes_at w' (Var_bytes (String_var ''hello'')) = Inl Dangling_pointer \<and>
      (\<forall>events. \<exists>w''. js_msgloop events w' = Inr w'' \<and>
         c_str w'' (Block t) = c_str w' (Block t))"
    by simp
  then have "\<exists>w' p e t. msgloop_body \<lparr>as_var = msg_hello\<rparr> world_hello = Inr w' \<and>
      collab_queue w' = collab_queue world_hello @ [p] \<and>
      cell_at w' p = Some (Edit e) \<and> text_of (body e) = Some (Block t) \<and>
      cell_at world_hello t = None \<and>
      c_str w' (Block t) = Some ''hello'' \<and>
      as_var \<lparr>as_var = msg_hello\<rparr> \<in> set (released w') \<and>
      bytes_at w' (Var_bytes (String_var ''hello'')) = Inl Dangling_pointer \<and>
      (\<forall>events. \<exists>w''. js_msgloop events w' = Inr w'' \<and>
         c_str w'' (Block t) = c_str w' (Block t))"
    by blast
  with h1 show ?thesis by (rule conjI)
qed

text \<open>
  Against claim C7 as stated: the text \<open>ab\<close>, a NUL byte, \<open>cd\<close> on the wire is not what the
  decoded edit holds; its text is \<open>ab\<close>.
\<close>

theorem text_copy_counterexample:
  "dict_Get msg_nul text_key = String_var (''ab'' @ [NUL] @ ''cd'') \<and>
   queued (msgloop_body \<lparr>as_var = msg_nul\<rparr> world0) = Inr [Some (AppendLine 1 ''ab'')]"
proof -
  have a: "dict_Get msg_nul text_key = String_var (''ab'' @ [NUL] @ ''cd'')"
    by (simp add: msg_nul_def key_defs)
  have "dict_Get (as_var \<lparr>as_var = msg_nul\<rparr>) type_key = type_append_line"
    by (simp add: msg_nul_def type_defs key_defs)
  then have "queued (msgloop_body \<lparr>as_var = msg_nul\<rparr> world0) =
      Inr [Some (AppendLine 1 ''ab'')]"
    by (simp add: body_append_line queued_def operation_at_def cell_at_def c_str_def world0_def
        msg_nul_def key_defs padded_def)
  with a show ?thesis by simp
qed

text \<open>
  Claim C8, as the code has it. \<^verbatim>\<open>collab_remoteapply\<close> and \<^verbatim>\<open>PostMessage\<close> return nothing.
  What the caller has after the call is the same whether the bridge delivers or not, and
  with a bridge that does not deliver the message is in no outbox: the failure is not
  reported.
\<close>

theorem send_failure_unseen:
  "caller_view (collab_remoteapply edit (w\<lparr>delivering := False\<rparr>)) =
   caller_view (collab_remoteapply edit (w\<lparr>delivering := True\<rparr>)) \<and>
   (\<forall>w'. collab_remoteapply edit (w\<lparr>delivering := False\<rparr>) = Inr w' \<longrightarrow> outbox w' = outbox w)"
proof
  show "caller_view (collab_remoteapply edit (w\<lparr>delivering := False\<rparr>)) =
      caller_view (collab_remoteapply edit (w\<lparr>delivering := True\<rparr>))"
    by (simp add: remoteapply_delivering)
  show "\<forall>w'. collab_remoteapply edit (w\<lparr>delivering := False\<rparr>) = Inr w' \<longrightarrow> outbox w' = outbox w"
    by (auto simp: collab_remoteapply_def and_then_def Release_def PostMessage_def
        split: option.splits cell.splits sum.splits if_splits)
qed

text \<open>At \<open>AppendLine{line=4, text="hello"}\<close>.\<close>

theorem send_failure_unseen_witness:
  "collab_remoteapply 1 (world_hello\<lparr>delivering := False\<rparr>) =
     Inr (world_hello\<lparr>delivering := False, released := [msg_hello]\<rparr>) \<and>
   outbox (world_hello\<lparr>delivering := False, released := [msg_hello]\<rparr>) = outbox world_hello \<and>
   caller_view (collab_remoteapply 1 (world_hello\<lparr>delivering := False\<rparr>)) =
     caller_view (collab_remoteapply 1 (world_hello\<lparr>delivering := True\<rparr>))"
proof -
  have h: "collab_remoteapply 1 (world_hello\<lparr>delivering := False\<rparr>) =
      Inr (world_hello\<lparr>delivering := False, released := [msg_hello]\<rparr>)"
    using hello_run [of False] by (simp add: world_hello_def world0_def)
  from h send_failure_unseen [of 1 world_hello] show ?thesis by simp
qed

text \<open>
  Against claim C8 as stated: the bridge drops the message for
  \<open>AppendLine{line=4, text="hello"}\<close>, the call returns, and the caller has what it has
  after a send that went through.
\<close>

theorem send_failure_counterexample:
  "collab_remoteapply 1 (world_hello\<lparr>delivering := False\<rparr>) =
     Inr (world_hello\<lparr>delivering := False, released := [msg_hello]\<rparr>) \<and>
   caller_view (collab_remoteapply 1 (world_hello\<lparr>delivering := False\<rparr>)) =
     caller_view (collab_remoteapply 1 world_hello)"
proof -
  have "world_hello\<lparr>delivering := True\<rparr> = world_hello"
    by (simp add: world_hello_def world0_def)
  with hello_run [of False] hello_run [of True] show ?thesis
    by (simp add: caller_view_def program_state_def world_hello_def world0_def)
qed

text \<open>
  Claim C9. Whatever the schedule of the two threads, nothing is lost, doubled or out of
  order: at every moment what the consumer has popped, then what the queue holds, then what
  the producer has yet to push is the sequence \<open>ops\<close>; so after \<open>k\<close> pops that returned the
  consumer has seen exactly the first \<open>k\<close> of them; and once the producer has had its turns
  and the consumer as many, it has seen all of \<open>ops\<close>.
\<close>

theorem fifo_any_interleaving:
  assumes "collab_queue w = []"
  shows "in_flight (interleave sched (start ops w)) = ops \<and>
         popped (interleave sched (start ops w)) =
           take (length (popped (interleave sched (start ops w)))) ops \<and>
         popped (interleave (sched @ replicate (length ops) Producer @
                   replicate (length ops) Consumer) (start ops w)) = ops"
proof -
  let ?n = "length ops"
  let ?s1 = "interleave sched (start ops w)"
  let ?s2 = "interleave (replicate ?n Producer) ?s1"
  let ?s3 = "interleave (replicate ?n Consumer) ?s2"
  have "in_flight (start ops w) = ops"
    using assms by (simp add: in_flight_def start_def)
  then have inv: "in_flight (interleave sc (start ops w)) = ops" for sc
    by (simp add: interleave_in_flight)
  have 1: "in_flight ?s1 = ops" by (rule inv)
  then have "popped ?s1 @ (collab_queue (shared ?s1) @ to_push ?s1) = ops"
    by (simp add: in_flight_def)
  then have 2: "popped ?s1 = take (length (popped ?s1)) ops"
    by (metis append_eq_conv_conj)
  have "length (in_flight ?s1) = ?n" using 1 by simp
  then have "length (to_push ?s1) \<le> ?n" by (simp add: in_flight_def)
  then have p: "to_push ?s2 = []" by (rule producer_finishes)
  have "length (in_flight ?s2) = ?n" using 1 by (simp add: interleave_in_flight)
  then have "length (collab_queue (shared ?s2)) \<le> ?n" by (simp add: in_flight_def)
  then have q: "collab_queue (shared ?s3) = []" by (rule consumer_drains)
  have "to_push ?s3 = []" using p by (simp add: consumer_keeps_to_push)
  moreover have "in_flight ?s3 = ops" using 1 by (simp add: interleave_in_flight)
  ultimately have 3: "popped ?s3 = ops" using q by (simp add: in_flight_def)
  from 1 2 3 show ?thesis by (simp add: interleave_append)
qed



text \<open>
  At three edits and a schedule in which the consumer comes first and waits: after it the
  consumer has seen the first edit only.
\<close>

theorem fifo_any_interleaving_witness:
  "collab_queue world0 = [] \<and>
   (in_flight (interleave [Consumer, Producer, Producer, Consumer, Producer]
      (start [1, 2, 3] world0)) = [1, 2, 3] \<and>
    popped (interleave [Consumer, Producer, Producer, Consumer, Producer]
      (start [1, 2, 3] world0)) =
      take (length (popped (interleave [Consumer, Producer, Producer, Consumer, Producer]
        (start [1, 2, 3] world0)))) [1, 2, 3] \<and>
    popped (interleave ([Consumer, Producer, Producer, Consumer, Producer] @
        replicate (length [1, 2, 3 :: addr]) Producer @
        replicate (length [1, 2, 3 :: addr]) Consumer) (start [1, 2, 3] world0)) = [1, 2, 3]) \<and>
   popped (interleave [Consumer, Producer, Producer, Consumer, Producer]
     (start [1, 2, 3] world0)) = [1]"
proof -
  have h: "collab_queue world0 = []" by (simp add: world0_def)
  have p: "popped (interleave [Consumer, Producer, Producer, Consumer, Producer]
      (start [1, 2, 3] world0)) = [1]"
    by (simp add: start_def world0_def collab_dequeue_def collab_enqueue_def)
  show ?thesis
    by (rule conjI [OF h conjI [OF fifo_any_interleaving [OF h] p]])
qed

text \<open>
  Claim C10. A call of \<^verbatim>\<open>collab_remoteapply\<close> that returns has written to no block and freed
  none: memory is what it was, so is the queue, and the edit stands for the operation it
  stood for.
\<close>

theorem remoteapply_reads_only:
  assumes "collab_remoteapply edit w = Inr w'"
  shows "heap w' = heap w \<and> collab_queue w' = collab_queue w \<and>
         operation_at w' edit = operation_at w edit"
  using remoteapply_frame [OF assms] operation_at_same [of w' w edit] by simp

text \<open>At \<open>AppendLine{line=4, text="hello"}\<close>.\<close>

theorem remoteapply_reads_only_witness:
  "collab_remoteapply 1 world_hello =
     Inr (world_hello\<lparr>outbox := [msg_hello], released := [msg_hello]\<rparr>) \<and>
   heap (world_hello\<lparr>outbox := [msg_hello], released := [msg_hello]\<rparr>) = heap world_hello \<and>
   collab_queue (world_hello\<lparr>outbox := [msg_hello], released := [msg_hello]\<rparr>) =
     collab_queue world_hello \<and>
   operation_at (world_hello\<lparr>outbox := [msg_hello], released := [msg_hello]\<rparr>) 1 =
     Some (AppendLine 4 ''hello'')"
proof -
  have h: "collab_remoteapply 1 world_hello =
      Inr (world_hello\<lparr>outbox := [msg_hello], released := [msg_hello]\<rparr>)"
    using hello_run [of True] by (simp add: world_hello_def world0_def)
  from h remoteapply_reads_only [OF h] hello_at show ?thesis by simp
qed

end
